theory Spec2Isabelle
  imports Main
begin

section \<open>Syntax trees\<close>

text \<open>
  The pass of \<^verbatim>\<open>lib/plugin/recma-jsx-rewrite.js\<close> works on an ESTree program with
  JSX nodes. The name of a JSX element is a \<^verbatim>\<open>JSXIdentifier\<close>, a
  \<^verbatim>\<open>JSXMemberExpression\<close> or a \<^verbatim>\<open>JSXNamespacedName\<close>. The \<^verbatim>\<open>object\<close> of a
  member expression is again a member expression or an identifier (never a namespaced
  name), which is what \<open>jsx_object\<close> says; its \<^verbatim>\<open>property\<close> is a \<^verbatim>\<open>JSXIdentifier\<close>,
  kept as its name.
\<close>

datatype jsx_object =
    JSXObjectIdentifier string
  | JSXObjectMember jsx_object string

datatype jsx_name =
    JSXIdentifier string
  | JSXMemberExpression jsx_object string
  | JSXNamespacedName string string

datatype function_type = FunctionDeclaration | FunctionExpression | ArrowFunctionExpression

text \<open>
  The value of a \<^verbatim>\<open>Literal\<close>; \<open>NoValue\<close> is a literal built from \<^verbatim>\<open>undefined\<close>.
\<close>

datatype literal = Str string | Num int | NoValue

text \<open>
  The nodes the pass reads or builds have a constructor of their own, with the fields in
  the order the parser creates them (the walker visits the fields in that order). Any
  other node type is \<open>Other\<close>: its type and its child nodes in field order.

  \<^item> \<open>FunctionNode t id params body\<close>: the three function node types; \<open>id\<close> is the
    name of the \<^verbatim>\<open>id\<close> identifier, \<open>None\<close> for \<^verbatim>\<open>null\<close>.
  \<^item> \<open>JSXElement name attributes closing explicit children\<close>: \<open>name\<close> and
    \<open>attributes\<close> are those of \<^verbatim>\<open>openingElement\<close>, \<open>closing\<close> is the name of
    \<^verbatim>\<open>closingElement\<close> (\<open>None\<close> for \<^verbatim>\<open>null\<close>), \<open>explicit\<close> is the truth value of
    \<^verbatim>\<open>node.data && node.data._xdmExplicitJsx\<close>.
  \<^item> \<open>Property shorthand key value\<close>: always of kind \<^verbatim>\<open>init\<close>; an absent
    \<^verbatim>\<open>shorthand\<close> is \<open>False\<close>.
  \<^item> \<open>MemberExpression object property computed\<close>: an absent \<^verbatim>\<open>computed\<close> is
    \<open>False\<close>.
\<close>

datatype node =
    Program "node list"
  | FunctionNode function_type "string option" "node list" node
  | JSXElement jsx_name "node list" "jsx_name option" bool "node list"
  | BlockStatement "node list"
  | ReturnStatement node
  | ThrowStatement node
  | VariableDeclaration string "node list"
  | VariableDeclarator node node
  | ObjectExpression "node list"
  | ObjectPattern "node list"
  | Property bool node node
  | Identifier string
  | Literal literal
  | CallExpression node "node list"
  | NewExpression node "node list"
  | MemberExpression node node bool
  | BinaryExpression string node node
  | ImportDeclaration "node list" node
  | ImportSpecifier node node
  | Other string "node list"

section \<open>Options, collaborators and the state of one run\<close>

text \<open>
  \<open>providerImportSource\<close> and \<open>outputFormat\<close> are the two options (\<open>None\<close> for
  \<^verbatim>\<open>undefined\<close>). The other three fields are the collaborators the file imports and
  whose code is elsewhere; the development holds for every choice of them:
  \<^verbatim>\<open>name\<close> of \<^verbatim>\<open>estree-util-is-identifier-name\<close>, the declarations of the top-level
  scope found by \<^verbatim>\<open>analyze\<close> of \<^verbatim>\<open>periscopic\<close>, and
  \<^verbatim>\<open>specifiersToObjectPattern\<close> of \<^verbatim>\<open>../util/estree-util-specifiers-to-object-pattern.js\<close>.
\<close>

record config =
  providerImportSource :: "string option"
  outputFormat :: "string option"
  isIdentifierName :: "string \<Rightarrow> bool"
  analyze :: "node \<Rightarrow> string set"
  specifiersToObjectPattern :: "node list \<Rightarrow> node"

text \<open>One entry of \<^verbatim>\<open>stack\<close>: \<^verbatim>\<open>{objects: [], components: [], tags: []}\<close>.\<close>

record scope =
  objects :: "string list"
  components :: "string list"
  tags :: "string list"

text \<open>
  The variables of \<^verbatim>\<open>transform\<close> that \<^verbatim>\<open>onenter\<close> and \<^verbatim>\<open>onleave\<close> assign.
  \<^verbatim>\<open>stack.push\<close> appends at the end, \<^verbatim>\<open>stack.pop\<close> removes the last entry and
  \<^verbatim>\<open>stack[0]\<close> is the head. The two flags start \<^verbatim>\<open>undefined\<close>, that is false.
\<close>

record state =
  stack :: "scope list"
  useMissingComponentHelper :: bool
  importProvider :: bool

definition empty_scope :: scope where
  "empty_scope = \<lparr>objects = [], components = [], tags = []\<rparr>"

definition initial_state :: state where
  "initial_state = \<lparr>stack = [], useMissingComponentHelper = False, importProvider = False\<rparr>"

section \<open>Small helpers of the source's expressions\<close>

text \<open>\<^verbatim>\<open>/^[a-z]/.test(name)\<close>\<close>

definition starts_lowercase :: "string \<Rightarrow> bool" where
  "starts_lowercase s =
     (case s of [] \<Rightarrow> False | c # _ \<Rightarrow> (97::nat) \<le> of_char c \<and> (of_char c :: nat) \<le> 122)"

text \<open>\<^verbatim>\<open>while (name.type === 'JSXMemberExpression') name = name.object\<close>, then \<^verbatim>\<open>name.name\<close>\<close>

fun leftmost :: "jsx_object \<Rightarrow> string" where
  "leftmost (JSXObjectIdentifier n) = n"
| "leftmost (JSXObjectMember obj _) = leftmost obj"

text \<open>The truthiness of an optional string: \<^verbatim>\<open>undefined\<close> and \<^verbatim>\<open>''\<close> are falsy.\<close>

definition truthy :: "string option \<Rightarrow> bool" where
  "truthy s = (case s of None \<Rightarrow> False | Some x \<Rightarrow> x \<noteq> [])"

definition is_function :: "node \<Rightarrow> bool" where
  "is_function n = (case n of FunctionNode _ _ _ _ \<Rightarrow> True | _ \<Rightarrow> False)"

text \<open>The rewritten name \<^verbatim>\<open>_components.<name>\<close>.\<close>

definition components_member :: "string \<Rightarrow> jsx_name" where
  "components_member n = JSXMemberExpression (JSXObjectIdentifier ''_components'') n"

text \<open>Assignments to fields of \<^verbatim>\<open>stack[0]\<close>, for a stack that is not empty.\<close>

definition update_scope0 :: "(scope \<Rightarrow> scope) \<Rightarrow> state \<Rightarrow> state" where
  "update_scope0 f st = st\<lparr>stack := f (hd (stack st)) # tl (stack st)\<rparr>"

section \<open>Entering a node\<close>

definition onenter :: "config \<Rightarrow> string set \<Rightarrow> node \<Rightarrow> state \<Rightarrow> node \<times> state" where
  "onenter cfg topScope node st0 =
    (let st = (if is_function node then st0\<lparr>stack := stack st0 @ [empty_scope]\<rparr> else st0)
     in case node of
       JSXElement name attributes closing explicit children \<Rightarrow>
         if stack st \<noteq> [] then
           (let scope = hd (stack st) in
            case name of
              JSXMemberExpression obj prop \<Rightarrow>
                (let n = leftmost obj in
                 if n \<notin> set (objects scope) \<and> n \<notin> topScope
                 then (node, update_scope0 (\<lambda>s. s\<lparr>objects := objects s @ [n]\<rparr>) st)
                 else (node, st))
            | JSXNamespacedName ns n \<Rightarrow> (node, st)
            | JSXIdentifier n \<Rightarrow>
                if isIdentifierName cfg n \<and> \<not> starts_lowercase n then
                  (if n \<notin> set (components scope) \<and> n \<notin> topScope
                   then (node,
                         update_scope0 (\<lambda>s. s\<lparr>components := components s @ [n]\<rparr>)
                           (if n \<noteq> ''MDXLayout''
                            then st\<lparr>useMissingComponentHelper := True\<rparr> else st))
                   else (node, st))
                else if explicit then (node, st)
                else
                  (JSXElement (components_member n) attributes
                     (case closing of None \<Rightarrow> None | Some _ \<Rightarrow> Some (components_member n))
                     explicit children,
                   if n \<notin> set (tags scope)
                   then update_scope0 (\<lambda>s. s\<lparr>tags := tags s @ [n]\<rparr>) st
                   else st))
         else (node, st)
     | _ \<Rightarrow> (node, st))"

section \<open>Leaving a node\<close>

text \<open>The two kinds of entry of \<^verbatim>\<open>defaults\<close>.\<close>

definition tag_default :: "string \<Rightarrow> node" where
  "tag_default name = Property False (Identifier name) (Literal (Str name))"

definition missing_default :: "string \<Rightarrow> node" where
  "missing_default name =
     Property False (Identifier name)
       (CallExpression (Identifier ''_missingComponent'') [Literal (Str name)])"

text \<open>The entry of \<^verbatim>\<open>actual\<close> for a component and for an object.\<close>

definition component_actual :: "string \<Rightarrow> node" where
  "component_actual name =
     Property (name \<noteq> ''MDXLayout'')
       (Identifier (if name = ''MDXLayout'' then ''wrapper'' else name))
       (Identifier name)"

definition object_actual :: "string \<Rightarrow> node" where
  "object_actual name = Property True (Identifier name) (Identifier name)"

text \<open>
  The three loops over \<^verbatim>\<open>scope.tags\<close>, \<^verbatim>\<open>scope.components\<close> and
  \<^verbatim>\<open>scope.objects\<close>: \<^verbatim>\<open>defaults\<close> and \<^verbatim>\<open>actual\<close> as they are when the loops end.
\<close>

definition defaults_of :: "scope \<Rightarrow> node list" where
  "defaults_of scope =
     map tag_default (tags scope) @
     map missing_default (filter (\<lambda>name. name \<noteq> ''MDXLayout'') (components scope))"

definition actual_of :: "scope \<Rightarrow> node list" where
  "actual_of scope =
     map component_actual (components scope) @ map object_actual (objects scope)"

definition provider_call :: node where
  "provider_call = CallExpression (Identifier ''_provideComponents'') []"

definition props_components :: node where
  "props_components =
     MemberExpression (Identifier ''_props'') (Identifier ''components'') False"

definition object_assign :: "node list \<Rightarrow> node" where
  "object_assign parameters =
     CallExpression (MemberExpression (Identifier ''Object'') (Identifier ''assign'') False)
       parameters"

text \<open>
  \<^verbatim>\<open>parameters\<close> after the pushes. \<open>mdx_content\<close> is the value of
  \<^verbatim>\<open>node.type === 'FunctionDeclaration' && node.id.name === 'MDXContent'\<close>.
\<close>

definition parameters_of :: "config \<Rightarrow> bool \<Rightarrow> node list \<Rightarrow> node list" where
  "parameters_of cfg mdx_content defaults =
     [ObjectExpression defaults] @
     (if truthy (providerImportSource cfg) then [provider_call] else []) @
     (if mdx_content then [props_components] else [])"

definition declarations_of :: "node list \<Rightarrow> node list \<Rightarrow> node list" where
  "declarations_of parameters actual =
     [VariableDeclarator (Identifier ''_components'')
        (if length parameters > 1 then object_assign parameters else hd parameters)] @
     (if length actual > 0
      then [VariableDeclarator (ObjectPattern actual) (Identifier ''_components'')]
      else [])"

text \<open>
  The end of the branch: the body of an arrow function with an implied return becomes a
  block, and the declaration is put in front of the block's statements.
\<close>

definition inject :: "node \<Rightarrow> node list \<Rightarrow> node" where
  "inject body declarations =
     (case body of
        BlockStatement stmts \<Rightarrow>
          BlockStatement (VariableDeclaration ''const'' declarations # stmts)
      | _ \<Rightarrow>
          BlockStatement [VariableDeclaration ''const'' declarations, ReturnStatement body])"

text \<open>
  \<^verbatim>\<open>onleave\<close>. The result is \<open>None\<close> where the source throws a \<^verbatim>\<open>TypeError\<close>:
  \<^verbatim>\<open>scope.tags\<close> when \<^verbatim>\<open>stack.pop()\<close> gave \<^verbatim>\<open>undefined\<close>, and
  \<^verbatim>\<open>node.id.name\<close> when a \<^verbatim>\<open>FunctionDeclaration\<close> has no \<^verbatim>\<open>id\<close> (as in
  \<^verbatim>\<open>export default function () {}\<close>).
\<close>

definition onleave :: "config \<Rightarrow> node \<Rightarrow> state \<Rightarrow> (node \<times> state) option" where
  "onleave cfg node st =
    (case node of
       FunctionNode ftype ident params body \<Rightarrow>
         if stack st = [] then None
         else
           (let scope = last (stack st);
                st1 = st\<lparr>stack := butlast (stack st)\<rparr>;
                defaults = defaults_of scope;
                actual = actual_of scope
            in if length defaults > 0 \<or> length actual > 0 then
                 (let st2 = (if truthy (providerImportSource cfg)
                             then st1\<lparr>importProvider := True\<rparr> else st1)
                  in if ftype = FunctionDeclaration \<and> ident = None then None
                     else
                       (let mdx_content =
                              (ftype = FunctionDeclaration \<and> ident = Some ''MDXContent'');
                            parameters = parameters_of cfg mdx_content defaults;
                            declarations = declarations_of parameters actual
                        in Some (FunctionNode ftype ident params (inject body declarations),
                                 st2)))
               else Some (node, st1))
     | _ \<Rightarrow> Some (node, st))"

section \<open>The walk\<close>

text \<open>
  \<^verbatim>\<open>walk\<close> of \<^verbatim>\<open>estree-walker\<close> calls \<^verbatim>\<open>enter\<close> on a node, then visits, field by
  field and in order, every child that is a node, then calls \<^verbatim>\<open>leave\<close>.
  \<open>children\<close> gives the child nodes of a node in field order and \<open>with_children\<close>
  stores the visited children back (the walker mutates them in place). The \<^verbatim>\<open>id\<close> of a
  function and the opening element, the closing element and the names of a JSX element
  are nodes too; the walker enters and leaves them, and \<^verbatim>\<open>onenter\<close> and \<^verbatim>\<open>onleave\<close>
  do nothing on them, so they are not among the children here.
\<close>

fun children :: "node \<Rightarrow> node list" where
  "children (Program body) = body"
| "children (FunctionNode ftype ident params body) = params @ [body]"
| "children (JSXElement name attributes closing explicit cs) = attributes @ cs"
| "children (BlockStatement body) = body"
| "children (ReturnStatement argument) = [argument]"
| "children (ThrowStatement argument) = [argument]"
| "children (VariableDeclaration kind declarations) = declarations"
| "children (VariableDeclarator ident init) = [ident, init]"
| "children (ObjectExpression properties) = properties"
| "children (ObjectPattern properties) = properties"
| "children (Property shorthand key val) = [key, val]"
| "children (Identifier name) = []"
| "children (Literal val) = []"
| "children (CallExpression callee arguments) = callee # arguments"
| "children (NewExpression callee arguments) = callee # arguments"
| "children (MemberExpression object property computed) = [object, property]"
| "children (BinaryExpression operator left right) = [left, right]"
| "children (ImportDeclaration specifiers source) = specifiers @ [source]"
| "children (ImportSpecifier imported local) = [imported, local]"
| "children (Other ty cs) = cs"

fun with_children :: "node \<Rightarrow> node list \<Rightarrow> node" where
  "with_children (Program body) cs = Program cs"
| "with_children (FunctionNode ftype ident params body) cs =
     FunctionNode ftype ident (take (length params) cs) (cs ! length params)"
| "with_children (JSXElement name attributes closing explicit elems) cs =
     JSXElement name (take (length attributes) cs) closing explicit
       (drop (length attributes) cs)"
| "with_children (BlockStatement body) cs = BlockStatement cs"
| "with_children (ReturnStatement argument) cs = ReturnStatement (cs ! 0)"
| "with_children (ThrowStatement argument) cs = ThrowStatement (cs ! 0)"
| "with_children (VariableDeclaration kind declarations) cs = VariableDeclaration kind cs"
| "with_children (VariableDeclarator ident init) cs = VariableDeclarator (cs ! 0) (cs ! 1)"
| "with_children (ObjectExpression properties) cs = ObjectExpression cs"
| "with_children (ObjectPattern properties) cs = ObjectPattern cs"
| "with_children (Property shorthand key val) cs = Property shorthand (cs ! 0) (cs ! 1)"
| "with_children (Identifier name) cs = Identifier name"
| "with_children (Literal val) cs = Literal val"
| "with_children (CallExpression callee arguments) cs = CallExpression (cs ! 0) (tl cs)"
| "with_children (NewExpression callee arguments) cs = NewExpression (cs ! 0) (tl cs)"
| "with_children (MemberExpression object property computed) cs =
     MemberExpression (cs ! 0) (cs ! 1) computed"
| "with_children (BinaryExpression operator left right) cs =
     BinaryExpression operator (cs ! 0) (cs ! 1)"
| "with_children (ImportDeclaration specifiers source) cs =
     ImportDeclaration (take (length specifiers) cs) (cs ! length specifiers)"
| "with_children (ImportSpecifier imported local) cs = ImportSpecifier (cs ! 0) (cs ! 1)"
| "with_children (Other ty elems) cs = Other ty cs"

text \<open>Visiting a list of children from left to right, the state passed along.\<close>

fun visit_all ::
  "(node \<Rightarrow> state \<Rightarrow> (node \<times> state) option) \<Rightarrow> node list \<Rightarrow> state \<Rightarrow>
     (node list \<times> state) option" where
  "visit_all visit [] st = Some ([], st)"
| "visit_all visit (n # ns) st =
     (case visit n st of
        None \<Rightarrow> None
      | Some (n', st1) \<Rightarrow>
          (case visit_all visit ns st1 of
             None \<Rightarrow> None
           | Some (ns', st2) \<Rightarrow> Some (n' # ns', st2)))"

lemma visit_all_cong [fundef_cong]:
  assumes "ns = ms" and "st = st'"
    and "\<And>n s. n \<in> set ms \<Longrightarrow> f n s = g n s"
  shows "visit_all f ns st = visit_all g ms st'"
  using assms by (induction ms arbitrary: ns st st') (auto split: option.splits)

lemma onenter_children: "children (fst (onenter cfg topScope node st)) = children node"
  by (cases node) (auto simp: onenter_def Let_def split: jsx_name.splits)

lemma child_size: "n \<in> set (children node) \<Longrightarrow> size n < size node"
  by (cases node) (auto simp: less_Suc_eq_le dest: size_list_estimation'[where f = size, OF _ order_refl])

lemma onenter_child_size:
  assumes "(node1, st1) = onenter cfg topScope node st" and "n \<in> set (children node1)"
  shows "size n < size node"
proof -
  have "children node1 = children node"
    using assms(1) onenter_children[of cfg topScope node st] by (metis fst_conv)
  then show ?thesis using assms(2) by (simp add: child_size)
qed

function walk :: "config \<Rightarrow> string set \<Rightarrow> node \<Rightarrow> state \<Rightarrow> (node \<times> state) option" where
  "walk cfg topScope node st =
     (case onenter cfg topScope node st of
        (node1, st1) \<Rightarrow>
          (case visit_all (walk cfg topScope) (children node1) st1 of
             None \<Rightarrow> None
           | Some (cs, st2) \<Rightarrow> onleave cfg (with_children node1 cs) st2))"
  by pat_completeness auto
termination
  by (relation "measure (\<lambda>(cfg, topScope, node, st). size node)")
    (auto dest: onenter_child_size)

declare walk.simps [simp del]

section \<open>The statements put at the root\<close>

definition createMissingComponentHelper :: node where
  "createMissingComponentHelper =
     FunctionNode FunctionDeclaration (Some ''_missingComponent'') [Identifier ''name'']
       (BlockStatement
          [ReturnStatement
             (FunctionNode FunctionExpression None []
                (BlockStatement
                   [ThrowStatement
                      (NewExpression (Identifier ''Error'')
                         [BinaryExpression ''+''
                            (BinaryExpression ''+''
                               (Literal (Str ''Component `''))
                               (Identifier ''name''))
                            (Literal (Str ''` was not imported, exported, or given''))])]))])"

definition createImportProvider :: "config \<Rightarrow> node" where
  "createImportProvider cfg =
     (let specifiers =
            [ImportSpecifier (Identifier ''useMDXComponents'') (Identifier ''_provideComponents'')]
      in if outputFormat cfg = Some ''function-body'' then
           VariableDeclaration ''const''
             [VariableDeclarator (specifiersToObjectPattern cfg specifiers)
                (MemberExpression (Identifier ''arguments'') (Literal (Num 0)) True)]
         else
           ImportDeclaration specifiers
             (Literal (case providerImportSource cfg of None \<Rightarrow> NoValue | Some src \<Rightarrow> Str src)))"

section \<open>The transform\<close>

text \<open>\<^verbatim>\<open>tree.body.unshift(statement)\<close>, on the statements of the program.\<close>

definition unshift :: "node \<Rightarrow> node list \<Rightarrow> node list" where
  "unshift statement body = statement # body"

text \<open>
  \<^verbatim>\<open>transform(tree)\<close> for the program with the statements \<open>body\<close>; the result is the
  list of statements of the program afterwards, \<open>None\<close> when the walk throws. (The walk
  of a program gives a program, so the last case is that of a walk that throws.)
\<close>

definition transform :: "config \<Rightarrow> node list \<Rightarrow> node list option" where
  "transform cfg body =
     (let topScope = analyze cfg (Program body) in
      case walk cfg topScope (Program body) initial_state of
        Some (Program body1, st) \<Rightarrow>
          (let body2 = (if useMissingComponentHelper st
                        then unshift createMissingComponentHelper body1 else body1);
               body3 = (if importProvider st
                        then unshift (createImportProvider cfg) body2 else body2)
           in Some body3)
      | _ \<Rightarrow> None)"

section \<open>Running the missing-component helper\<close>

text \<open>
  What the helper does when it is called is a property of the JavaScript it is made of. The
  evaluator below covers the node types the helper consists of and nothing more: string
  literals, identifiers, \<^verbatim>\<open>+\<close> on strings, function expressions, \<^verbatim>\<open>new Error(message)\<close>,
  \<^verbatim>\<open>return\<close>, \<^verbatim>\<open>throw\<close> and blocks. A result \<open>None\<close> means that the program leaves
  this fragment.
\<close>

datatype js_value =
    VUndefined
  | VString string
  | VError string
  | VFunction "string list" node "(string \<times> js_value) list"

text \<open>
  \<open>VError message\<close> is an \<^verbatim>\<open>Error\<close> object with that message; \<open>VFunction params body env\<close>
  is a function with the bindings it closes over.
\<close>

datatype completion = Normal js_value | Returned js_value | Thrown js_value

fun parameter_names :: "node list \<Rightarrow> string list option" where
  "parameter_names [] = Some []"
| "parameter_names (Identifier x # ps) = map_option ((#) x) (parameter_names ps)"
| "parameter_names (_ # ps) = None"

fun eval_expression :: "(string \<times> js_value) list \<Rightarrow> node \<Rightarrow> completion option" where
  "eval_expression env (Literal (Str s)) = Some (Normal (VString s))"
| "eval_expression env (Identifier x) = map_option Normal (map_of env x)"
| "eval_expression env (BinaryExpression operator left right) =
     (if operator \<noteq> ''+'' then None
      else case eval_expression env left of
             Some (Normal (VString a)) \<Rightarrow>
               (case eval_expression env right of
                  Some (Normal (VString b)) \<Rightarrow> Some (Normal (VString (a @ b)))
                | Some (Thrown e) \<Rightarrow> Some (Thrown e)
                | _ \<Rightarrow> None)
           | Some (Thrown e) \<Rightarrow> Some (Thrown e)
           | _ \<Rightarrow> None)"
| "eval_expression env (FunctionNode ftype ident params body) =
     (if ftype = FunctionDeclaration then None
      else map_option (\<lambda>ps. Normal (VFunction ps body env)) (parameter_names params))"
| "eval_expression env (NewExpression callee arguments) =
     (case arguments of
        [argument] \<Rightarrow>
          if callee = Identifier ''Error'' \<and> map_of env ''Error'' = None then
            (case eval_expression env argument of
               Some (Normal (VString message)) \<Rightarrow> Some (Normal (VError message))
             | Some (Thrown e) \<Rightarrow> Some (Thrown e)
             | _ \<Rightarrow> None)
          else None
      | _ \<Rightarrow> None)"
| "eval_expression env _ = None"

fun exec_statement :: "(string \<times> js_value) list \<Rightarrow> node \<Rightarrow> completion option"
  and exec_statements :: "(string \<times> js_value) list \<Rightarrow> node list \<Rightarrow> completion option" where
  "exec_statement env (ReturnStatement argument) =
     (case eval_expression env argument of
        Some (Normal v) \<Rightarrow> Some (Returned v)
      | r \<Rightarrow> r)"
| "exec_statement env (ThrowStatement argument) =
     (case eval_expression env argument of
        Some (Normal v) \<Rightarrow> Some (Thrown v)
      | r \<Rightarrow> r)"
| "exec_statement env (BlockStatement body) = exec_statements env body"
| "exec_statement env _ = None"
| "exec_statements env [] = Some (Normal VUndefined)"
| "exec_statements env (s # ss) =
     (case exec_statement env s of
        Some (Normal _) \<Rightarrow> exec_statements env ss
      | r \<Rightarrow> r)"

text \<open>The function value a function declaration binds its name to, in the scope \<open>env\<close>.\<close>

definition declared_function :: "(string \<times> js_value) list \<Rightarrow> node \<Rightarrow> js_value option" where
  "declared_function env node =
     (case node of
        FunctionNode ftype ident params body \<Rightarrow>
          if ftype = FunctionDeclaration
          then map_option (\<lambda>ps. VFunction ps body env) (parameter_names params)
          else None
      | _ \<Rightarrow> None)"

text \<open>
  Calling a function value: the parameters are bound to the arguments (\<^verbatim>\<open>undefined\<close> for
  a missing one), the body runs, and a \<^verbatim>\<open>return\<close> gives the value of the call.
\<close>

definition call_function :: "js_value \<Rightarrow> js_value list \<Rightarrow> completion option" where
  "call_function f arguments =
     (case f of
        VFunction params body env \<Rightarrow>
          (case exec_statement
                  (zip params (arguments @ replicate (length params - length arguments) VUndefined)
                   @ env) body of
             Some (Returned v) \<Rightarrow> Some (Normal v)
           | Some (Normal _) \<Rightarrow> Some (Normal VUndefined)
           | r \<Rightarrow> r)
      | _ \<Rightarrow> None)"

text \<open>The call \<^verbatim>\<open>_missingComponent(name)\<close> of the declared helper at the root.\<close>

definition call_missing_component :: "string \<Rightarrow> completion option" where
  "call_missing_component name =
     (case declared_function [] createMissingComponentHelper of
        None \<Rightarrow> None
      | Some helper \<Rightarrow> call_function helper [VString name])"

section \<open>Reading the output\<close>

text \<open>
  The declarators of the \<^verbatim>\<open>const\<close> declaration at the head of a function's body, the
  initializer of the first of them (the one of \<^verbatim>\<open>_components\<close>), and the properties of
  the object pattern of the second.
\<close>

definition injected :: "node \<Rightarrow> node list" where
  "injected f =
     (case f of
        FunctionNode _ _ _ (BlockStatement (VariableDeclaration kind declarations # _)) \<Rightarrow>
          if kind = ''const'' then declarations else []
      | _ \<Rightarrow> [])"

definition components_initializer :: "node \<Rightarrow> node option" where
  "components_initializer f =
     (case injected f of
        VariableDeclarator ident init # _ \<Rightarrow>
          if ident = Identifier ''_components'' then Some init else None
      | _ \<Rightarrow> None)"

definition destructured :: "node \<Rightarrow> node list" where
  "destructured f =
     (case injected f of
        [_, VariableDeclarator (ObjectPattern properties) init] \<Rightarrow>
          if init = Identifier ''_components'' then properties else []
      | _ \<Rightarrow> [])"

text \<open>
  The parts of an initializer: the arguments of the merge when it is a call of
  \<^verbatim>\<open>Object.assign\<close>, the initializer itself otherwise. The defaults object is the
  first part.
\<close>

definition initializer_parts :: "node \<Rightarrow> node list" where
  "initializer_parts init =
     (case init of
        CallExpression callee arguments \<Rightarrow>
          if callee = MemberExpression (Identifier ''Object'') (Identifier ''assign'') False
          then arguments else [init]
      | _ \<Rightarrow> [init])"

definition defaults_object :: "node \<Rightarrow> node list" where
  "defaults_object f =
     (case components_initializer f of
        None \<Rightarrow> []
      | Some init \<Rightarrow>
          (case initializer_parts init of
             ObjectExpression properties # _ \<Rightarrow> properties
           | _ \<Rightarrow> []))"

text \<open>The first parameter of a function node.\<close>

definition first_parameter :: "node \<Rightarrow> node option" where
  "first_parameter f =
     (case f of FunctionNode _ _ (p # _) _ \<Rightarrow> Some p | _ \<Rightarrow> None)"

section \<open>An instance of the collaborators, for the examples\<close>

text \<open>
  Identifier names over ASCII: letters, digits, \<^verbatim>\<open>$\<close> and \<^verbatim>\<open>_\<close>, not starting with a
  digit. The examples below run the pass with it.
\<close>

definition identifier_char :: "char \<Rightarrow> bool" where
  "identifier_char c =
     (let k = (of_char c :: nat)
      in (97 \<le> k \<and> k \<le> 122) \<or> (65 \<le> k \<and> k \<le> 90) \<or> (48 \<le> k \<and> k \<le> 57) \<or>
         k = 36 \<or> k = 95)"

definition ascii_identifier_name :: "string \<Rightarrow> bool" where
  "ascii_identifier_name s =
     (case s of
        [] \<Rightarrow> False
      | c # _ \<Rightarrow> list_all identifier_char s \<and>
                 \<not> (48 \<le> (of_char c :: nat) \<and> (of_char c :: nat) \<le> 57))"

definition example_specifiers_to_object_pattern :: "node list \<Rightarrow> node" where
  "example_specifiers_to_object_pattern specifiers =
     ObjectPattern
       (map (\<lambda>s. case s of ImportSpecifier imported local \<Rightarrow> Property False imported local
                  | other \<Rightarrow> other) specifiers)"

definition example_config :: "string option \<Rightarrow> string set \<Rightarrow> config" where
  "example_config source declared =
     \<lparr>providerImportSource = source, outputFormat = None,
      isIdentifierName = ascii_identifier_name, analyze = (\<lambda>_. declared),
      specifiersToObjectPattern = example_specifiers_to_object_pattern\<rparr>"

definition one_frame :: "scope \<Rightarrow> state" where
  "one_frame s = \<lparr>stack = [s], useMissingComponentHelper = False, importProvider = False\<rparr>"

text \<open>
  \<^verbatim>\<open>function MDXContent(_props) { return <h1>...</h1> }\<close>, the heading not written as
  JSX by the author, and what the walk makes of it.
\<close>

definition heading_function :: node where
  "heading_function =
     FunctionNode FunctionDeclaration (Some ''MDXContent'') [Identifier ''_props'']
       (BlockStatement
          [ReturnStatement
             (JSXElement (JSXIdentifier ''h1'') [] (Some (JSXIdentifier ''h1'')) False
                [Other ''JSXText'' []])])"

definition heading_output :: node where
  "heading_output =
     FunctionNode FunctionDeclaration (Some ''MDXContent'') [Identifier ''_props'']
       (BlockStatement
          [VariableDeclaration ''const''
             [VariableDeclarator (Identifier ''_components'')
                (CallExpression
                   (MemberExpression (Identifier ''Object'') (Identifier ''assign'') False)
                   [ObjectExpression [Property False (Identifier ''h1'') (Literal (Str ''h1''))],
                    MemberExpression (Identifier ''_props'') (Identifier ''components'') False])],
           ReturnStatement
             (JSXElement (JSXMemberExpression (JSXObjectIdentifier ''_components'') ''h1'') []
                (Some (JSXMemberExpression (JSXObjectIdentifier ''_components'') ''h1'')) False
                [Other ''JSXText'' []])])"

text \<open>\<^verbatim>\<open>function MDXContent(props) { return <h1/> }\<close>: the parameter has another name.\<close>

definition mdx_props_function :: node where
  "mdx_props_function =
     FunctionNode FunctionDeclaration (Some ''MDXContent'') [Identifier ''props'']
       (BlockStatement
          [ReturnStatement (JSXElement (JSXIdentifier ''h1'') [] None False [])])"

definition mdx_props_output :: node where
  "mdx_props_output =
     FunctionNode FunctionDeclaration (Some ''MDXContent'') [Identifier ''props'']
       (BlockStatement
          [VariableDeclaration ''const''
             [VariableDeclarator (Identifier ''_components'')
                (CallExpression
                   (MemberExpression (Identifier ''Object'') (Identifier ''assign'') False)
                   [ObjectExpression [Property False (Identifier ''h1'') (Literal (Str ''h1''))],
                    MemberExpression (Identifier ''_props'') (Identifier ''components'') False])],
           ReturnStatement
             (JSXElement (JSXMemberExpression (JSXObjectIdentifier ''_components'') ''h1'') []
                None False [])])"

text \<open>
  \<^verbatim>\<open>function MDXContent(_props) { return <MDXLayout><MDXLayout.Aside/></MDXLayout> }\<close>:
  \<^verbatim>\<open>MDXLayout\<close> is used as a component and as the root of a member chain.
\<close>

definition layout_function :: node where
  "layout_function =
     FunctionNode FunctionDeclaration (Some ''MDXContent'') [Identifier ''_props'']
       (BlockStatement
          [ReturnStatement
             (JSXElement (JSXIdentifier ''MDXLayout'') [] (Some (JSXIdentifier ''MDXLayout'')) False
                [JSXElement (JSXMemberExpression (JSXObjectIdentifier ''MDXLayout'') ''Aside'')
                   [] None True []])])"

definition layout_output :: node where
  "layout_output =
     FunctionNode FunctionDeclaration (Some ''MDXContent'') [Identifier ''_props'']
       (BlockStatement
          [VariableDeclaration ''const''
             [VariableDeclarator (Identifier ''_components'')
                (CallExpression
                   (MemberExpression (Identifier ''Object'') (Identifier ''assign'') False)
                   [ObjectExpression [],
                    MemberExpression (Identifier ''_props'') (Identifier ''components'') False]),
              VariableDeclarator
                (ObjectPattern
                   [Property False (Identifier ''wrapper'') (Identifier ''MDXLayout''),
                    Property True (Identifier ''MDXLayout'') (Identifier ''MDXLayout'')])
                (Identifier ''_components'')],
           ReturnStatement
             (JSXElement (JSXIdentifier ''MDXLayout'') [] (Some (JSXIdentifier ''MDXLayout'')) False
                [JSXElement (JSXMemberExpression (JSXObjectIdentifier ''MDXLayout'') ''Aside'')
                   [] None True []])])"

text \<open>\<^verbatim>\<open>function f() { return <Foo.Bar/> }\<close> and \<^verbatim>\<open>function MDXContent(_props) { return <Foo/> }\<close>\<close>

definition member_function :: node where
  "member_function =
     FunctionNode FunctionDeclaration (Some ''f'') []
       (BlockStatement
          [ReturnStatement
             (JSXElement (JSXMemberExpression (JSXObjectIdentifier ''Foo'') ''Bar'') [] None True
                [])])"

definition component_function :: node where
  "component_function =
     FunctionNode FunctionDeclaration (Some ''MDXContent'') [Identifier ''_props'']
       (BlockStatement [ReturnStatement (JSXElement (JSXIdentifier ''Foo'') [] None True [])])"

definition component_output :: node where
  "component_output =
     FunctionNode FunctionDeclaration (Some ''MDXContent'') [Identifier ''_props'']
       (BlockStatement
          [VariableDeclaration ''const''
             [VariableDeclarator (Identifier ''_components'')
                (CallExpression
                   (MemberExpression (Identifier ''Object'') (Identifier ''assign'') False)
                   [ObjectExpression
                      [Property False (Identifier ''Foo'')
                         (CallExpression (Identifier ''_missingComponent'')
                            [Literal (Str ''Foo'')])],
                    CallExpression (Identifier ''_provideComponents'') [],
                    MemberExpression (Identifier ''_props'') (Identifier ''components'') False]),
              VariableDeclarator
                (ObjectPattern [Property True (Identifier ''Foo'') (Identifier ''Foo'')])
                (Identifier ''_components'')],
           ReturnStatement (JSXElement (JSXIdentifier ''Foo'') [] None True [])])"

section \<open>The traversal as a sequence of calls\<close>

text \<open>
  All a run of the pass does to its state is a sequence of calls of \<^verbatim>\<open>onenter\<close> and
  \<^verbatim>\<open>onleave\<close>. \<open>run\<close> applies such a sequence; \<open>None\<close> when a call throws.
\<close>

datatype event = Enter node | Leave node

fun step :: "config \<Rightarrow> string set \<Rightarrow> event \<Rightarrow> state \<Rightarrow> state option" where
  "step cfg topScope (Enter node) st = Some (snd (onenter cfg topScope node st))"
| "step cfg topScope (Leave node) st = map_option snd (onleave cfg node st)"

fun run :: "config \<Rightarrow> string set \<Rightarrow> event list \<Rightarrow> state \<Rightarrow> state option" where
  "run cfg topScope [] st = Some st"
| "run cfg topScope (ev # evs) st =
     (case step cfg topScope ev st of
        None \<Rightarrow> None
      | Some st1 \<Rightarrow> run cfg topScope evs st1)"

text \<open>No frame of the stack has a name of the top-level scope among its objects or components.\<close>

definition unshadowed :: "string set \<Rightarrow> state \<Rightarrow> bool" where
  "unshadowed topScope st =
     list_all (\<lambda>s. list_all (\<lambda>x. x \<notin> topScope) (objects s) \<and>
                    list_all (\<lambda>x. x \<notin> topScope) (components s)) (stack st)"

text \<open>
  \<open>extends st st'\<close>: from \<open>st\<close> to \<open>st'\<close> the stack kept its entries but the first, and
  the first only gained names. An empty stack stayed empty.
\<close>

definition extends :: "state \<Rightarrow> state \<Rightarrow> bool" where
  "extends st st' =
     (case stack st of
        [] \<Rightarrow> stack st' = []
      | s # ss \<Rightarrow>
          (case stack st' of
             [] \<Rightarrow> False
           | s' # ss' \<Rightarrow>
               ss' = ss \<and> set (tags s) \<subseteq> set (tags s') \<and>
               set (components s) \<subseteq> set (components s') \<and>
               set (objects s) \<subseteq> set (objects s')))"

text \<open>A node and all the nodes below it, in the order the walker enters them.\<close>

function subnodes :: "node \<Rightarrow> node list" where
  "subnodes node = node # concat (map subnodes (children node))"
  by pat_completeness auto
termination
  by (relation "measure size") (auto simp: child_size)

declare subnodes.simps [simp del]

text \<open>
  No function declaration in or below the node lacks its \<^verbatim>\<open>id\<close> (as the declaration
  in \<^verbatim>\<open>export default function () {}\<close> does).
\<close>

definition declarations_named :: "node \<Rightarrow> bool" where
  "declarations_named node =
     list_all (\<lambda>n. case n of
                      FunctionNode ftype ident _ _ \<Rightarrow> \<not> (ftype = FunctionDeclaration \<and> ident = None)
                    | _ \<Rightarrow> True) (subnodes node)"

text \<open>
  The last part of the initializer of \<^verbatim>\<open>_components\<close> in a function, and the access of
  \<^verbatim>\<open>components\<close> on the function's first parameter.
\<close>

definition last_part :: "node \<Rightarrow> node option" where
  "last_part f = map_option (last \<circ> initializer_parts) (components_initializer f)"

definition components_of_first_parameter :: "node \<Rightarrow> node option" where
  "components_of_first_parameter f =
     map_option (\<lambda>p. MemberExpression p (Identifier ''components'') False) (first_parameter f)"

section \<open>Facts about leaving a function\<close>

lemma injected_inject [simp]: "injected (FunctionNode ftype ident params (inject body ds)) = ds"
  by (cases body) (simp_all add: injected_def inject_def)

lemma discoveries_iff:
  "(length (defaults_of s) > 0 \<or> length (actual_of s) > 0) =
   (tags s \<noteq> [] \<or> components s \<noteq> [] \<or> objects s \<noteq> [])"
  by (cases "components s") (auto simp: defaults_of_def actual_of_def)

text \<open>\<^verbatim>\<open>onleave\<close> on a function node, branch by branch.\<close>

lemma onleave_function:
  "onleave cfg (FunctionNode ftype ident params body) st =
    (if stack st = [] then None
     else if tags (last (stack st)) \<noteq> [] \<or> components (last (stack st)) \<noteq> [] \<or>
             objects (last (stack st)) \<noteq> [] then
       (if ftype = FunctionDeclaration \<and> ident = None then None
        else Some (FunctionNode ftype ident params
                     (inject body
                        (declarations_of
                           (parameters_of cfg
                              (ftype = FunctionDeclaration \<and> ident = Some ''MDXContent'')
                              (defaults_of (last (stack st))))
                           (actual_of (last (stack st))))),
                   st\<lparr>stack := butlast (stack st),
                      importProvider := importProvider st \<or> truthy (providerImportSource cfg)\<rparr>))
     else Some (FunctionNode ftype ident params body, st\<lparr>stack := butlast (stack st)\<rparr>))"
  unfolding onleave_def Let_def discoveries_iff by simp

lemma property_in_map_component_actual:
  "Property sh (Identifier k) v \<in> set (map component_actual cs) \<Longrightarrow> k \<noteq> ''MDXLayout''"
  by (auto simp: component_actual_def split: if_splits)

lemma defaults_object_inject:
  "defaults_object (FunctionNode ftype ident params
      (inject body (declarations_of (parameters_of cfg mdx defaults) actual))) = defaults"
  by (simp add: defaults_object_def components_initializer_def declarations_of_def
      parameters_of_def initializer_parts_def object_assign_def provider_call_def
      props_components_def)

section \<open>Facts about the walk\<close>

lemma visit_all_length:
  "visit_all f ns st = Some (ns', st') \<Longrightarrow> length ns' = length ns"
  by (induction ns arbitrary: st ns') (auto split: option.splits)

lemma visit_all_invariant:
  assumes "\<And>n s n' s'. n \<in> set ns \<Longrightarrow> P s \<Longrightarrow> f n s = Some (n', s') \<Longrightarrow> P s'"
    and "P st" and "visit_all f ns st = Some (ns', st')"
  shows "P st'"
  using assms
proof (induction ns arbitrary: st ns')
  case Nil
  then show ?case by simp
next
  case (Cons n ns)
  from Cons.prems(3) obtain n' s1 ns1 where
    1: "f n st = Some (n', s1)" and 2: "visit_all f ns s1 = Some (ns1, st')"
    by (auto split: option.splits)
  have s1: "P s1" using Cons.prems(1)[of n st n' s1] Cons.prems(2) 1 by simp
  have "\<And>m s n' s'. m \<in> set ns \<Longrightarrow> P s \<Longrightarrow> f m s = Some (n', s') \<Longrightarrow> P s'"
    using Cons.prems(1) by (meson list.set_intros(2))
  then show ?case using Cons.IH[OF _ s1 2] by blast
qed

lemma node_induct [case_names node]:
  assumes "\<And>node st. (\<And>n s. n \<in> set (children node) \<Longrightarrow> Q n s) \<Longrightarrow> Q node st"
  shows "Q node st"
proof (induction node arbitrary: st rule: measure_induct_rule[where f = size])
  case (less node)
  show ?case by (rule assms) (simp add: less child_size)
qed

lemma walk_cases:
  assumes "walk cfg topScope node st = Some (node', st')"
  obtains node1 st1 cs st2 where
    "onenter cfg topScope node st = (node1, st1)"
    "children node1 = children node"
    "visit_all (walk cfg topScope) (children node) st1 = Some (cs, st2)"
    "onleave cfg (with_children node1 cs) st2 = Some (node', st')"
proof -
  obtain node1 st1 where e: "onenter cfg topScope node st = (node1, st1)" by fastforce
  have c: "children node1 = children node"
    using onenter_children[of cfg topScope node st] e by simp
  from assms e obtain cs st2 where
    "visit_all (walk cfg topScope) (children node1) st1 = Some (cs, st2)"
    "onleave cfg (with_children node1 cs) st2 = Some (node', st')"
    by (auto simp: walk.simps[of cfg topScope node st] split: option.splits)
  then show ?thesis using that e c by simp
qed

lemma walk_invariant:
  assumes enter: "\<And>n s. P s \<Longrightarrow> P (snd (onenter cfg topScope n s))"
    and leave: "\<And>n s n' s'. P s \<Longrightarrow> onleave cfg n s = Some (n', s') \<Longrightarrow> P s'"
  shows "P st \<Longrightarrow> walk cfg topScope node st = Some (node', st') \<Longrightarrow> P st'"
proof (induction node st arbitrary: node' st' rule: node_induct)
  case (node node st)
  from node.prems(2) obtain node1 st1 cs st2 where
    e: "onenter cfg topScope node st = (node1, st1)"
    and v: "visit_all (walk cfg topScope) (children node) st1 = Some (cs, st2)"
    and l: "onleave cfg (with_children node1 cs) st2 = Some (node', st')"
    by (rule walk_cases)
  have st1: "P st1" using enter[OF node.prems(1), of node] e by simp
  have "P st2"
    by (rule visit_all_invariant[where P = P, OF _ st1 v]) (use node.IH in blast)
  then show ?case using leave l by blast
qed


lemma extends_refl [simp]: "extends st st"
  by (auto simp: extends_def split: list.splits)

lemma extends_trans: "extends a b \<Longrightarrow> extends b c \<Longrightarrow> extends a c"
  by (auto simp: extends_def split: list.splits)

lemma extends_nonempty: "extends st st' \<Longrightarrow> stack st \<noteq> [] \<Longrightarrow> stack st' \<noteq> []"
  by (auto simp: extends_def split: list.splits)

lemma onenter_function:
  "onenter cfg topScope (FunctionNode ftype ident params body) st =
     (FunctionNode ftype ident params body, st\<lparr>stack := stack st @ [empty_scope]\<rparr>)"
  by (simp add: onenter_def is_function_def)

lemma onenter_element_extends:
  "extends st (snd (onenter cfg topScope (JSXElement name attributes closing explicit cs) st))"
  by (cases "stack st")
    (auto simp: onenter_def is_function_def update_scope0_def extends_def Let_def
      split: jsx_name.splits)

lemma onenter_extends:
  "\<not> is_function node \<Longrightarrow> extends st (snd (onenter cfg topScope node st))"
proof (cases node)
  case (JSXElement name attributes closing explicit cs)
  then show ?thesis using onenter_element_extends by simp
qed (simp_all add: onenter_def is_function_def)

lemma onleave_not_function: "\<not> is_function node \<Longrightarrow> onleave cfg node st = Some (node, st)"
  by (cases node) (simp_all add: onleave_def is_function_def)

lemma is_function_with_children [simp]: "is_function (with_children node cs) = is_function node"
  by (cases node) (simp_all add: is_function_def)

lemma is_function_onenter:
  "onenter cfg topScope node st = (node1, st1) \<Longrightarrow> is_function node1 = is_function node"
  by (cases node) (auto simp: onenter_def is_function_def Let_def split: if_splits jsx_name.splits)

lemma leave_not_function:
  assumes "onenter cfg topScope node st = (node1, st1)" and "\<not> is_function node"
    and "onleave cfg (with_children node1 ds) st2 = Some (node', st')"
  shows "st' = st2" and "node' = with_children node1 ds"
  using assms is_function_onenter[OF assms(1)]
    onleave_not_function[of "with_children node1 ds" cfg st2]
  by simp_all

lemma visit_all_extends:
  assumes "\<And>n s n' s'. n \<in> set ns \<Longrightarrow> f n s = Some (n', s') \<Longrightarrow> extends s s'"
    and "visit_all f ns st = Some (ns', st')"
  shows "extends st st'"
  using assms
proof (induction ns arbitrary: st ns')
  case Nil
  then show ?case by simp
next
  case (Cons n ns)
  from Cons.prems(2) obtain n' s1 ns1 where
    1: "f n st = Some (n', s1)" and 2: "visit_all f ns s1 = Some (ns1, st')"
    by (auto split: option.splits)
  have a: "extends st s1" using Cons.prems(1) 1 by (meson list.set_intros(1))
  have "\<And>m s n' s'. m \<in> set ns \<Longrightarrow> f m s = Some (n', s') \<Longrightarrow> extends s s'"
    using Cons.prems(1) by (meson list.set_intros(2))
  then have "extends s1 st'" using Cons.IH[OF _ 2] by blast
  then show ?case using a extends_trans by blast
qed

lemma walk_extends: "walk cfg topScope node st = Some (node', st') \<Longrightarrow> extends st st'"
proof (induction node st arbitrary: node' st' rule: node_induct)
  case (node node st)
  from node.prems obtain node1 st1 cs st2 where
    e: "onenter cfg topScope node st = (node1, st1)"
    and v: "visit_all (walk cfg topScope) (children node) st1 = Some (cs, st2)"
    and l: "onleave cfg (with_children node1 cs) st2 = Some (node', st')"
    by (rule walk_cases)
  have mid: "extends st1 st2"
    by (rule visit_all_extends[OF _ v]) (use node.IH in blast)
  show ?case
  proof (cases "is_function node")
    case False
    then have "extends st st1" using onenter_extends[of node st cfg topScope] e by simp
    moreover have "st' = st2" using leave_not_function(1)[OF e False l] .
    ultimately show ?thesis using mid extends_trans by blast
  next
    case True
    then obtain ftype ident params body where n: "node = FunctionNode ftype ident params body"
      by (cases node) (simp_all add: is_function_def)
    have n1: "node1 = node" and st1: "st1 = st\<lparr>stack := stack st @ [empty_scope]\<rparr>"
      using e by (simp_all add: n onenter_function)
    obtain params' body' where w: "with_children node1 cs = FunctionNode ftype ident params' body'"
      by (simp add: n1 n)
    have st': "stack st' = butlast (stack st2)"
      using l unfolding w onleave_function by (auto split: if_splits)
    show ?thesis
    proof (cases "stack st")
      case Nil
      then have "stack st1 = [empty_scope]" by (simp add: st1)
      then have "\<exists>s. stack st2 = [s]" using mid by (auto simp: extends_def split: list.splits)
      then show ?thesis using st' Nil by (auto simp: extends_def)
    next
      case (Cons s ss)
      then have "stack st1 = s # ss @ [empty_scope]" by (simp add: st1)
      then show ?thesis using mid st' Cons by (auto simp: extends_def split: list.splits)
    qed
  qed
qed


lemma subnodes_iff:
  "e \<in> set (subnodes node) \<longleftrightarrow> e = node \<or> (\<exists>c \<in> set (children node). e \<in> set (subnodes c))"
  by (subst subnodes.simps) auto

lemma tag_kept:
  "extends st st' \<Longrightarrow> stack st \<noteq> [] \<Longrightarrow> nm \<in> set (tags (hd (stack st))) \<Longrightarrow>
   nm \<in> set (tags (hd (stack st')))"
  by (auto simp: extends_def split: list.splits)

lemma visit_all_hit:
  assumes "visit_all f ns st = Some (ns', st')" and "c \<in> set ns" and "stack st \<noteq> []"
    and "\<And>n s n' s'. n \<in> set ns \<Longrightarrow> f n s = Some (n', s') \<Longrightarrow> extends s s'"
    and "\<And>s c' s'. stack s \<noteq> [] \<Longrightarrow> f c s = Some (c', s') \<Longrightarrow> nm \<in> set (tags (hd (stack s')))"
  shows "nm \<in> set (tags (hd (stack st')))"
  using assms
proof (induction ns arbitrary: st ns')
  case Nil
  then show ?case by simp
next
  case (Cons n ns)
  from Cons.prems(1) obtain n' s1 ns1 where
    1: "f n st = Some (n', s1)" and 2: "visit_all f ns s1 = Some (ns1, st')"
    by (auto split: option.splits)
  have step: "\<And>m s n' s'. m \<in> set ns \<Longrightarrow> f m s = Some (n', s') \<Longrightarrow> extends s s'"
    using Cons.prems(4) by (meson list.set_intros(2))
  have a: "extends st s1" using Cons.prems(4) 1 by (meson list.set_intros(1))
  then have ne: "stack s1 \<noteq> []" using Cons.prems(3) extends_nonempty by blast
  have rest: "extends s1 st'" using visit_all_extends[OF _ 2] step by blast
  show ?case
  proof (cases "c = n")
    case True
    then have "nm \<in> set (tags (hd (stack s1)))" using Cons.prems(5)[OF Cons.prems(3)] 1 by simp
    then show ?thesis using tag_kept[OF rest ne] by simp
  next
    case False
    then have "c \<in> set ns" using Cons.prems(2) by simp
    then show ?thesis using Cons.IH[OF 2 _ ne step Cons.prems(5)] by simp
  qed
qed

lemma onenter_tag:
  assumes "stack st \<noteq> []" and "starts_lowercase nm"
  shows "onenter cfg topScope (JSXElement (JSXIdentifier nm) attributes closing False cs) st =
     (JSXElement (components_member nm) attributes
        (case closing of None \<Rightarrow> None | Some _ \<Rightarrow> Some (components_member nm)) False cs,
      if nm \<in> set (tags (hd (stack st))) then st
      else st\<lparr>stack := (hd (stack st))\<lparr>tags := tags (hd (stack st)) @ [nm]\<rparr> # tl (stack st)\<rparr>)"
  using assms by (simp add: onenter_def is_function_def update_scope0_def Let_def)

lemma walk_records_tag:
  assumes "JSXElement (JSXIdentifier nm) attributes closing False cs \<in> set (subnodes node)"
    and "starts_lowercase nm" and "stack st \<noteq> []"
    and "walk cfg topScope node st = Some (node', st')"
  shows "nm \<in> set (tags (hd (stack st')))"
  using assms(1,3,4)
proof (induction node st arbitrary: node' st' rule: node_induct)
  case (node node st)
  let ?e = "JSXElement (JSXIdentifier nm) attributes closing False cs"
  from node.prems(3) obtain node1 st1 ds st2 where
    e: "onenter cfg topScope node st = (node1, st1)"
    and v: "visit_all (walk cfg topScope) (children node) st1 = Some (ds, st2)"
    and l: "onleave cfg (with_children node1 ds) st2 = Some (node', st')"
    by (rule walk_cases)
  have mid: "extends st1 st2"
    by (rule visit_all_extends[OF _ v]) (use walk_extends in blast)
  have whole: "extends st st'" using node.prems(3) by (rule walk_extends)
  have ne1: "stack st1 \<noteq> []"
  proof (cases "is_function node")
    case True
    then obtain ftype ident params body where "node = FunctionNode ftype ident params body"
      by (cases node) (simp_all add: is_function_def)
    then show ?thesis using e by (auto simp: onenter_function)
  next
    case False
    then show ?thesis
      using onenter_extends[of node st cfg topScope] e extends_nonempty node.prems(2) by fastforce
  qed
  show ?case
  proof (cases "?e = node")
    case True
    have "nm \<in> set (tags (hd (stack st1)))"
      using e onenter_tag[OF node.prems(2) assms(2), of cfg topScope attributes closing cs]
      unfolding True[symmetric] by (auto split: if_splits)
    moreover have "\<not> is_function node" unfolding True[symmetric] by (simp add: is_function_def)
    then have "st' = st2" using leave_not_function(1)[OF e _ l] by simp
    ultimately show ?thesis using tag_kept[OF mid ne1] by simp
  next
    case False
    then obtain c where c: "c \<in> set (children node)" and ec: "?e \<in> set (subnodes c)"
      using node.prems(1) subnodes_iff[of ?e node] by auto
    have in2: "nm \<in> set (tags (hd (stack st2)))"
    proof (rule visit_all_hit[OF v c ne1])
      show "\<And>n s n' s'. n \<in> set (children node) \<Longrightarrow> walk cfg topScope n s = Some (n', s') \<Longrightarrow>
          extends s s'" using walk_extends by blast
      show "\<And>s c' s'. stack s \<noteq> [] \<Longrightarrow> walk cfg topScope c s = Some (c', s') \<Longrightarrow>
          nm \<in> set (tags (hd (stack s')))" using node.IH[OF c ec] by blast
    qed
    have ne2: "stack st2 \<noteq> []" using mid ne1 extends_nonempty by blast
    show ?thesis
    proof (cases "is_function node")
      case False
      then have "st' = st2" using leave_not_function(1)[OF e _ l] by simp
      then show ?thesis using in2 by simp
    next
      case True
      then obtain ftype ident params body where n: "node = FunctionNode ftype ident params body"
        by (cases node) (simp_all add: is_function_def)
      have st1: "stack st1 = stack st @ [empty_scope]" and n1: "node1 = node"
        using e by (auto simp: n onenter_function)
      obtain params' body' where w: "with_children node1 ds = FunctionNode ftype ident params' body'"
        by (simp add: n1 n)
      have st': "stack st' = butlast (stack st2)"
        using l unfolding w onleave_function by (auto split: if_splits)
      obtain s ss where s: "stack st = s # ss" using node.prems(2) by (cases "stack st") auto
      then obtain s2 where "stack st2 = s2 # ss @ [empty_scope]"
        using mid st1 by (auto simp: extends_def split: list.splits)
      then show ?thesis using in2 st' by simp
    qed
  qed
qed

lemma walk_program:
  assumes "walk cfg topScope (Program body) st = Some (node', st')"
  shows "\<exists>body1. node' = Program body1 \<and> length body1 = length body"
proof -
  from assms obtain node1 st1 cs st2 where
    e: "onenter cfg topScope (Program body) st = (node1, st1)"
    and v: "visit_all (walk cfg topScope) (children (Program body)) st1 = Some (cs, st2)"
    and l: "onleave cfg (with_children node1 cs) st2 = Some (node', st')"
    by (rule walk_cases)
  have "node1 = Program body" using e by (auto simp: onenter_def is_function_def)
  then have "node' = Program cs" using l by (simp add: onleave_def)
  moreover have "length cs = length body" using visit_all_length[OF v] by simp
  ultimately show ?thesis by simp
qed

lemma onenter_importProvider:
  "importProvider (snd (onenter cfg topScope node st)) = importProvider st"
proof (cases node)
  case (JSXElement name attributes closing explicit cs)
  then show ?thesis
    by (auto simp: onenter_def is_function_def update_scope0_def Let_def split: jsx_name.splits)
next
  case (FunctionNode ftype ident params body)
  then show ?thesis by (simp add: onenter_function)
qed (simp_all add: onenter_def is_function_def)

lemma onleave_importProvider:
  assumes "onleave cfg node st = Some (node', st')" and "importProvider st'"
  shows "importProvider st \<or> truthy (providerImportSource cfg)"
proof (cases "is_function node")
  case False
  then show ?thesis using assms onleave_not_function[of node cfg st] by simp
next
  case True
  then obtain ftype ident params body where n: "node = FunctionNode ftype ident params body"
    by (cases node) (simp_all add: is_function_def)
  show ?thesis using assms unfolding n onleave_function by (auto split: if_splits)
qed

lemma with_children_children [simp]: "with_children node (children node) = node"
  by (cases node) (simp_all add: nth_append)

lemma declarations_named_child:
  "declarations_named node \<Longrightarrow> c \<in> set (children node) \<Longrightarrow> declarations_named c"
  unfolding declarations_named_def list_all_iff
  using subnodes_iff by blast

lemma visit_all_returns:
  assumes "\<And>n s. n \<in> set ns \<Longrightarrow> f n s \<noteq> None"
  shows "visit_all f ns st \<noteq> None"
  using assms
proof (induction ns arbitrary: st)
  case Nil
  then show ?case by simp
next
  case (Cons n ns)
  obtain n' s1 where 1: "f n st = Some (n', s1)"
    using Cons.prems[of n st] by auto
  have "visit_all f ns s1 \<noteq> None" using Cons.IH Cons.prems by (meson list.set_intros(2))
  then show ?case using 1 by auto
qed

text \<open>
  The walk returns unless it leaves a function declaration without \<^verbatim>\<open>id\<close> whose frame
  is not empty; so it returns on every tree whose function declarations are named, and
  so does \<^verbatim>\<open>transform\<close>.
\<close>

lemma walk_returns:
  "declarations_named node \<Longrightarrow> walk cfg topScope node st \<noteq> None"
proof (induction node st rule: node_induct)
  case (node node st)
  obtain node1 st1 where e: "onenter cfg topScope node st = (node1, st1)" by fastforce
  have c: "children node1 = children node"
    using onenter_children[of cfg topScope node st] e by simp
  have "visit_all (walk cfg topScope) (children node) st1 \<noteq> None"
    by (rule visit_all_returns) (use node.IH node.prems declarations_named_child in blast)
  then obtain cs st2 where
    v: "visit_all (walk cfg topScope) (children node) st1 = Some (cs, st2)" by auto
  have mid: "extends st1 st2"
    by (rule visit_all_extends[OF _ v]) (use walk_extends in blast)
  have "onleave cfg (with_children node1 cs) st2 \<noteq> None"
  proof (cases "is_function node")
    case False
    then show ?thesis
      using is_function_onenter[OF e] onleave_not_function[of "with_children node1 cs" cfg st2]
      by simp
  next
    case True
    then obtain ftype ident params body where n: "node = FunctionNode ftype ident params body"
      by (cases node) (simp_all add: is_function_def)
    have n1: "node1 = node" and st1: "stack st1 = stack st @ [empty_scope]"
      using e by (auto simp: n onenter_function)
    have ne: "stack st2 \<noteq> []" using mid st1 extends_nonempty[of st1 st2] by simp
    have named: "\<not> (ftype = FunctionDeclaration \<and> ident = None)"
      using node.prems subnodes_iff[of node node]
      by (auto simp: declarations_named_def list_all_iff n)
    obtain params' body' where w: "with_children node1 cs = FunctionNode ftype ident params' body'"
      by (simp add: n1 n)
    show ?thesis unfolding w onleave_function using ne named by auto
  qed
  then show ?case using e c v by (auto simp: walk.simps[of cfg topScope node st])
qed

lemma transform_returns:
  "declarations_named (Program body) \<Longrightarrow> transform cfg body \<noteq> None"
proof -
  assume "declarations_named (Program body)"
  then obtain node' st where
    w: "walk cfg (analyze cfg (Program body)) (Program body) initial_state = Some (node', st)"
    using walk_returns[of "Program body" cfg "analyze cfg (Program body)" initial_state] by auto
  then obtain body1 where "node' = Program body1" using walk_program by blast
  then show ?thesis using w by (simp add: transform_def Let_def)
qed

section \<open>Facts about sequences of calls\<close>

lemma unshadowed_onenter:
  "unshadowed topScope st \<Longrightarrow> unshadowed topScope (snd (onenter cfg topScope node st))"
proof (cases node)
  case (JSXElement name attributes closing explicit cs)
  assume "unshadowed topScope st"
  then show ?thesis
    unfolding JSXElement
    by (cases "stack st")
      (auto simp: onenter_def is_function_def update_scope0_def unshadowed_def Let_def
        split: jsx_name.splits)
next
  case (FunctionNode ftype ident params body)
  assume "unshadowed topScope st"
  then show ?thesis
    by (simp add: FunctionNode onenter_function unshadowed_def empty_scope_def)
qed (simp_all add: onenter_def is_function_def)

lemma onleave_stack:
  "onleave cfg node st = Some (node', st') \<Longrightarrow>
   stack st' = (if is_function node then butlast (stack st) else stack st)"
proof (cases "is_function node")
  case False
  assume "onleave cfg node st = Some (node', st')"
  then show ?thesis using False onleave_not_function[of node cfg st] by simp
next
  case True
  then obtain ftype ident params body where n: "node = FunctionNode ftype ident params body"
    by (cases node) (simp_all add: is_function_def)
  assume "onleave cfg node st = Some (node', st')"
  then show ?thesis using True unfolding n onleave_function by (auto split: if_splits)
qed

lemma unshadowed_onleave:
  assumes "unshadowed topScope st" and "onleave cfg node st = Some (node', st')"
  shows "unshadowed topScope st'"
proof -
  have "set (stack st') \<subseteq> set (stack st)"
    using onleave_stack[OF assms(2)] by (auto dest: in_set_butlastD)
  then show ?thesis using assms(1) by (auto simp: unshadowed_def list_all_iff)
qed

lemma run_append:
  "run cfg topScope (xs @ ys) st =
     (case run cfg topScope xs st of None \<Rightarrow> None | Some s \<Rightarrow> run cfg topScope ys s)"
  by (induction xs arbitrary: st) (auto split: option.splits)

lemma visit_all_run:
  assumes "\<And>n s n' s'. n \<in> set ns \<Longrightarrow> f n s = Some (n', s') \<Longrightarrow>
             \<exists>evs. run cfg topScope evs s = Some s'"
    and "visit_all f ns st = Some (ns', st')"
  shows "\<exists>evs. run cfg topScope evs st = Some st'"
  using assms
proof (induction ns arbitrary: st ns')
  case Nil
  then have "run cfg topScope [] st = Some st'" by simp
  then show ?case by blast
next
  case (Cons n ns)
  from Cons.prems(2) obtain n' s1 ns1 where
    1: "f n st = Some (n', s1)" and 2: "visit_all f ns s1 = Some (ns1, st')"
    by (auto split: option.splits)
  obtain xs where xs: "run cfg topScope xs st = Some s1"
    using Cons.prems(1) 1 by (meson list.set_intros(1))
  have "\<And>m s n' s'. m \<in> set ns \<Longrightarrow> f m s = Some (n', s') \<Longrightarrow>
      \<exists>evs. run cfg topScope evs s = Some s'"
    using Cons.prems(1) by (meson list.set_intros(2))
  then obtain ys where ys: "run cfg topScope ys s1 = Some st'" using Cons.IH[OF _ 2] by blast
  have "run cfg topScope (xs @ ys) st = Some st'" by (simp add: run_append xs ys)
  then show ?case by blast
qed

lemma walk_is_run:
  "walk cfg topScope node st = Some (node', st') \<Longrightarrow> \<exists>evs. run cfg topScope evs st = Some st'"
proof (induction node st arbitrary: node' st' rule: node_induct)
  case (node node st)
  from node.prems obtain node1 st1 cs st2 where
    e: "onenter cfg topScope node st = (node1, st1)"
    and v: "visit_all (walk cfg topScope) (children node) st1 = Some (cs, st2)"
    and l: "onleave cfg (with_children node1 cs) st2 = Some (node', st')"
    by (rule walk_cases)
  obtain evs where evs: "run cfg topScope evs st1 = Some st2"
    using visit_all_run[OF _ v] node.IH by blast
  have "run cfg topScope (Enter node # evs @ [Leave (with_children node1 cs)]) st = Some st'"
    using e evs l by (simp add: run_append)
  then show ?case by blast
qed

section \<open>The claims\<close>

text \<open>
  C1. A JSX element whose name is an identifier starting with a lowercase letter and that
  is not marked as explicit JSX, below a function that is entered with an empty stack
  (the outermost open function): when the walk of that function returns, the defaults
  object injected into the function has the property \<^verbatim>\<open><name>: "<name>"\<close>. And whenever
  such an element is entered with a frame open, its opening name and, when there is a
  closing element, its closing name become \<^verbatim>\<open>_components.<name>\<close>, and the name is in
  the tags of the first frame afterwards.
\<close>

theorem tag_rewritten_and_defaulted:
  assumes "starts_lowercase nm"
    and "JSXElement (JSXIdentifier nm) attributes closing False cs
           \<in> set (subnodes (FunctionNode ftype ident params body))"
    and "stack st = []"
    and "walk cfg topScope (FunctionNode ftype ident params body) st = Some (f, st')"
  shows "Property False (Identifier nm) (Literal (Str nm)) \<in> set (defaults_object f) \<and>
    (\<forall>st0. stack st0 \<noteq> [] \<longrightarrow>
       (\<exists>st1. onenter cfg topScope (JSXElement (JSXIdentifier nm) attributes closing False cs) st0 =
                 (JSXElement (JSXMemberExpression (JSXObjectIdentifier ''_components'') nm)
                    attributes
                    (map_option (\<lambda>_. JSXMemberExpression (JSXObjectIdentifier ''_components'') nm)
                       closing)
                    False cs, st1) \<and>
              nm \<in> set (tags (hd (stack st1)))))"
proof
  let ?e = "JSXElement (JSXIdentifier nm) attributes closing False cs"
  let ?f = "FunctionNode ftype ident params body"
  from assms(4) obtain node1 st1 ds st2 where
    e: "onenter cfg topScope ?f st = (node1, st1)"
    and v: "visit_all (walk cfg topScope) (children ?f) st1 = Some (ds, st2)"
    and l: "onleave cfg (with_children node1 ds) st2 = Some (f, st')"
    by (rule walk_cases)
  have st1: "stack st1 = [empty_scope]" and n1: "node1 = ?f"
    using e assms(3) by (auto simp: onenter_function)
  have mid: "extends st1 st2"
    by (rule visit_all_extends[OF _ v]) (use walk_extends in blast)
  then obtain s2 where s2: "stack st2 = [s2]"
    using st1 by (auto simp: extends_def split: list.splits)
  obtain c where c: "c \<in> set (children ?f)" and ec: "?e \<in> set (subnodes c)"
    using assms(2) subnodes_iff[of ?e ?f] by auto
  have "nm \<in> set (tags (hd (stack st2)))"
  proof (rule visit_all_hit[OF v c])
    show "stack st1 \<noteq> []" using st1 by simp
    show "\<And>n s n' s'. n \<in> set (children ?f) \<Longrightarrow> walk cfg topScope n s = Some (n', s') \<Longrightarrow>
        extends s s'" using walk_extends by blast
    show "\<And>s c' s'. stack s \<noteq> [] \<Longrightarrow> walk cfg topScope c s = Some (c', s') \<Longrightarrow>
        nm \<in> set (tags (hd (stack s')))" using walk_records_tag[OF ec assms(1)] by blast
  qed
  then have tag: "nm \<in> set (tags s2)" using s2 by simp
  obtain params' body' where w: "with_children node1 ds = FunctionNode ftype ident params' body'"
    by (simp add: n1)
  have "defaults_object f = defaults_of s2"
    using l tag unfolding w onleave_function s2
    by (auto simp: defaults_object_inject split: if_splits)
  then show "Property False (Identifier nm) (Literal (Str nm)) \<in> set (defaults_object f)"
    using tag by (simp add: defaults_of_def tag_default_def)
next
  show "\<forall>st0. stack st0 \<noteq> [] \<longrightarrow>
       (\<exists>st1. onenter cfg topScope (JSXElement (JSXIdentifier nm) attributes closing False cs) st0 =
                 (JSXElement (JSXMemberExpression (JSXObjectIdentifier ''_components'') nm)
                    attributes
                    (map_option (\<lambda>_. JSXMemberExpression (JSXObjectIdentifier ''_components'') nm)
                       closing)
                    False cs, st1) \<and>
              nm \<in> set (tags (hd (stack st1))))"
    using assms(1) by (cases closing) (auto simp: onenter_tag components_member_def)
qed

theorem tag_rewritten_and_defaulted_witness:
  "walk (example_config None {}) {} heading_function initial_state =
     Some (heading_output, initial_state) \<and>
   Property False (Identifier ''h1'') (Literal (Str ''h1'')) \<in> set (defaults_object heading_output) \<and>
   onenter (example_config None {}) {}
     (JSXElement (JSXIdentifier ''h1'') [] (Some (JSXIdentifier ''h1'')) False [Other ''JSXText'' []])
     (one_frame empty_scope) =
   (JSXElement (JSXMemberExpression (JSXObjectIdentifier ''_components'') ''h1'') []
      (Some (JSXMemberExpression (JSXObjectIdentifier ''_components'') ''h1'')) False
      [Other ''JSXText'' []],
    one_frame \<lparr>objects = [], components = [], tags = [''h1'']\<rparr>)"
proof -
  let ?e = "JSXElement (JSXIdentifier ''h1'') [] (Some (JSXIdentifier ''h1'')) False
              [Other ''JSXText'' []]"
  have low: "starts_lowercase ''h1''" by code_simp
  have sub: "?e \<in> set (subnodes (FunctionNode FunctionDeclaration (Some ''MDXContent'')
       [Identifier ''_props''] (BlockStatement [ReturnStatement ?e])))"
    by code_simp
  have emp: "stack initial_state = []" by (simp add: initial_state_def)
  have w: "walk (example_config None {}) {} (FunctionNode FunctionDeclaration (Some ''MDXContent'')
       [Identifier ''_props''] (BlockStatement [ReturnStatement ?e])) initial_state =
     Some (heading_output, initial_state)"
    by code_simp
  have en: "onenter (example_config None {}) {} ?e (one_frame empty_scope) =
   (JSXElement (JSXMemberExpression (JSXObjectIdentifier ''_components'') ''h1'') []
      (Some (JSXMemberExpression (JSXObjectIdentifier ''_components'') ''h1'')) False
      [Other ''JSXText'' []],
    one_frame \<lparr>objects = [], components = [], tags = [''h1'']\<rparr>)"
    by code_simp
  from tag_rewritten_and_defaulted[OF low sub emp w] w en show ?thesis
    by (simp add: heading_function_def)
qed

text \<open>
  C2, as stated, fails for tags: with \<^verbatim>\<open>h1\<close> declared at the top level, entering a
  function and then \<^verbatim>\<open>h1\<close> (not explicit JSX) puts \<^verbatim>\<open>h1\<close> into the tags of the frame.
\<close>

theorem top_scope_tag_recorded_counterexample:
  "run (example_config None {''h1''}) {''h1''}
     [Enter (FunctionNode ArrowFunctionExpression None [] (Identifier ''x'')),
      Enter (JSXElement (JSXIdentifier ''h1'') [] None False [])] initial_state =
     Some \<lparr>stack = [\<lparr>objects = [], components = [], tags = [''h1'']\<rparr>],
           useMissingComponentHelper = False, importProvider = False\<rparr> \<and>
   ''h1'' \<in> {''h1''}"
  by code_simp

text \<open>
  C2, amended. Whatever sequence of \<^verbatim>\<open>onenter\<close> and \<^verbatim>\<open>onleave\<close> calls the pass makes
  from its initial state, no frame of the stack has a name of the top-level scope among
  its objects or its components. (Tags are recorded whether or not the name is declared
  at the top level.) By \<open>walk_is_run\<close> the states of a walk are states of such sequences.
\<close>

theorem top_scope_names_not_collected:
  assumes "run cfg topScope events initial_state = Some st"
  shows "unshadowed topScope st"
proof -
  have "unshadowed topScope s \<Longrightarrow> run cfg topScope events s = Some st \<Longrightarrow>
      unshadowed topScope st" for s
  proof (induction events arbitrary: s)
    case Nil
    then show ?case by simp
  next
    case (Cons ev evs)
    from Cons.prems(2) obtain s1 where 1: "step cfg topScope ev s = Some s1"
      and 2: "run cfg topScope evs s1 = Some st" by (auto split: option.splits)
    have "unshadowed topScope s1"
      using 1 Cons.prems(1) unshadowed_onenter unshadowed_onleave by (cases ev) auto
    then show ?case using Cons.IH 2 by blast
  qed
  moreover have "unshadowed topScope initial_state"
    by (simp add: unshadowed_def initial_state_def)
  ultimately show ?thesis using assms by blast
qed

theorem top_scope_names_not_collected_witness:
  "run (example_config None {''Foo''}) {''Foo''}
     [Enter (FunctionNode ArrowFunctionExpression None [] (Identifier ''x'')),
      Enter (JSXElement (JSXIdentifier ''Foo'') [] None False []),
      Enter (JSXElement (JSXIdentifier ''Bar'') [] None False [])] initial_state =
     Some \<lparr>stack = [\<lparr>objects = [], components = [''Bar''], tags = []\<rparr>],
           useMissingComponentHelper = True, importProvider = False\<rparr> \<and>
   unshadowed {''Foo''} \<lparr>stack = [\<lparr>objects = [], components = [''Bar''], tags = []\<rparr>],
           useMissingComponentHelper = True, importProvider = False\<rparr>"
proof -
  have r: "run (example_config None {''Foo''}) {''Foo''}
     [Enter (FunctionNode ArrowFunctionExpression None [] (Identifier ''x'')),
      Enter (JSXElement (JSXIdentifier ''Foo'') [] None False []),
      Enter (JSXElement (JSXIdentifier ''Bar'') [] None False [])] initial_state =
     Some \<lparr>stack = [\<lparr>objects = [], components = [''Bar''], tags = []\<rparr>],
           useMissingComponentHelper = True, importProvider = False\<rparr>"
    by code_simp
  from top_scope_names_not_collected[OF r] r show ?thesis by simp
qed

text \<open>
  C3. The claim does not hold of the code when \<^verbatim>\<open>MDXLayout\<close> is a component and also
  the root of a member chain in the same function, as in
  \<^verbatim>\<open>function MDXContent(_props) { return <MDXLayout><MDXLayout.Aside/></MDXLayout> }\<close>.
  The loop over the components gives the property \<^verbatim>\<open>wrapper: MDXLayout\<close>; the loop over
  the objects has no case for \<^verbatim>\<open>MDXLayout\<close> and adds the shorthand property
  \<^verbatim>\<open>MDXLayout\<close>, so the pattern binds \<^verbatim>\<open>MDXLayout\<close> a second time, from the key
  \<^verbatim>\<open>MDXLayout\<close>.
\<close>

theorem layout_bound_from_its_own_key:
  "transform (example_config None {}) [layout_function] = Some [layout_output] \<and>
   destructured layout_output =
     [Property False (Identifier ''wrapper'') (Identifier ''MDXLayout''),
      Property True (Identifier ''MDXLayout'') (Identifier ''MDXLayout'')]"
  by code_simp

text \<open>
  What holds of \<^verbatim>\<open>MDXLayout\<close> in every case: entering an element of that name leaves the
  helper flag as it was, and on leaving a function whose frame has the component
  \<^verbatim>\<open>MDXLayout\<close>, no property of the defaults object has the key \<^verbatim>\<open>MDXLayout\<close> and a
  call as its value, and the pattern has the property \<^verbatim>\<open>wrapper: MDXLayout\<close>, not
  shorthand. When \<^verbatim>\<open>MDXLayout\<close> is not among the objects of the frame, no property of the
  pattern has the key \<^verbatim>\<open>MDXLayout\<close>.
\<close>

lemma layout_never_missing_and_from_wrapper:
  assumes "stack st \<noteq> []" and "''MDXLayout'' \<in> set (components (last (stack st)))"
    and "ftype = FunctionDeclaration \<longrightarrow> ident \<noteq> None"
  shows "useMissingComponentHelper
           (snd (onenter cfg topScope
                   (JSXElement (JSXIdentifier ''MDXLayout'') attributes closing explicit cs) st0)) =
         useMissingComponentHelper st0 \<and>
    (\<exists>f st'.
       onleave cfg (FunctionNode ftype ident params body) st = Some (f, st') \<and>
       (\<forall>shorthand callee arguments.
          Property shorthand (Identifier ''MDXLayout'') (CallExpression callee arguments)
            \<notin> set (defaults_object f)) \<and>
       Property False (Identifier ''wrapper'') (Identifier ''MDXLayout'') \<in> set (destructured f) \<and>
       (''MDXLayout'' \<notin> set (objects (last (stack st))) \<longrightarrow>
          (\<forall>shorthand v. Property shorthand (Identifier ''MDXLayout'') v \<notin> set (destructured f))))"
proof -
  let ?s = "last (stack st)"
  have flag: "useMissingComponentHelper
           (snd (onenter cfg topScope
                   (JSXElement (JSXIdentifier ''MDXLayout'') attributes closing explicit cs) st0)) =
         useMissingComponentHelper st0"
    by (simp add: onenter_def is_function_def update_scope0_def Let_def)
  have ne: "components ?s \<noteq> []" using assms(2) by auto
  then have act: "actual_of ?s \<noteq> []" by (simp add: actual_of_def)
  obtain f st' where leave: "onleave cfg (FunctionNode ftype ident params body) st = Some (f, st')"
    and f: "injected f = declarations_of
                (parameters_of cfg (ftype = FunctionDeclaration \<and> ident = Some ''MDXContent'')
                   (defaults_of ?s)) (actual_of ?s)"
    using assms ne by (simp add: onleave_function)
  have d: "defaults_object f = defaults_of ?s"
    by (simp add: defaults_object_def components_initializer_def f declarations_of_def
        parameters_of_def initializer_parts_def object_assign_def provider_call_def
        props_components_def)
  have p: "destructured f = actual_of ?s"
    using act by (simp add: destructured_def f declarations_of_def)
  have 1: "Property shorthand (Identifier ''MDXLayout'') (CallExpression callee arguments)
            \<notin> set (defaults_of ?s)" for shorthand callee arguments
    by (auto simp: defaults_of_def tag_default_def missing_default_def)
  have 2: "Property False (Identifier ''wrapper'') (Identifier ''MDXLayout'') \<in> set (actual_of ?s)"
    using assms(2) by (force simp: actual_of_def component_actual_def)
  have 3: "Property shorthand (Identifier ''MDXLayout'') v \<notin> set (actual_of ?s)"
    if "''MDXLayout'' \<notin> set (objects ?s)" for shorthand v
    using that property_in_map_component_actual[of shorthand "''MDXLayout''" v]
    by (auto simp: actual_of_def object_actual_def)
  show ?thesis using flag leave d p 1 2 3 by auto
qed

lemma layout_never_missing_and_from_wrapper_example:
  "useMissingComponentHelper
     (snd (onenter (example_config None {}) {}
             (JSXElement (JSXIdentifier ''MDXLayout'') [] None False []) (one_frame empty_scope))) =
   useMissingComponentHelper (one_frame empty_scope) \<and>
   (\<exists>f st'.
      onleave (example_config None {})
        (FunctionNode FunctionDeclaration (Some ''MDXContent'') [Identifier ''_props'']
           (BlockStatement []))
        (one_frame \<lparr>objects = [], components = [''Foo'', ''MDXLayout''], tags = []\<rparr>) =
        Some (f, st') \<and>
      (\<forall>shorthand callee arguments.
          Property shorthand (Identifier ''MDXLayout'') (CallExpression callee arguments)
            \<notin> set (defaults_object f)) \<and>
      Property False (Identifier ''wrapper'') (Identifier ''MDXLayout'') \<in> set (destructured f) \<and>
      (\<forall>shorthand v. Property shorthand (Identifier ''MDXLayout'') v \<notin> set (destructured f)))"
proof -
  let ?st = "one_frame \<lparr>objects = [], components = [''Foo'', ''MDXLayout''], tags = []\<rparr>"
  have ne: "stack ?st \<noteq> []" by (simp add: one_frame_def)
  have mem: "''MDXLayout'' \<in> set (components (last (stack ?st)))" by (simp add: one_frame_def)
  have obj: "''MDXLayout'' \<notin> set (objects (last (stack ?st)))" by (simp add: one_frame_def)
  have ident: "FunctionDeclaration = FunctionDeclaration \<longrightarrow> Some ''MDXContent'' \<noteq> None"
    by simp
  from layout_never_missing_and_from_wrapper[OF ne mem ident, of "example_config None {}" "{}"
      "[]" None False "[]" "one_frame empty_scope" "[Identifier ''_props'']" "BlockStatement []"]
    obj
  show ?thesis by blast
qed

text \<open>
  C4. The helper is a function declaration \<^verbatim>\<open>_missingComponent\<close> with the one parameter
  \<^verbatim>\<open>name\<close>. Calling it with a string completes normally and gives a function without
  parameters that closes over \<^verbatim>\<open>name\<close>; calling that function throws an \<^verbatim>\<open>Error\<close> whose
  message is \<^verbatim>\<open>Component `\<close>, then the name, then \<^verbatim>\<open>` was not imported, exported, or given\<close>.
\<close>

theorem missing_component_helper_defers_the_error:
  "\<exists>body inner_body.
     createMissingComponentHelper =
       FunctionNode FunctionDeclaration (Some ''_missingComponent'') [Identifier ''name''] body \<and>
     call_missing_component name =
       Some (Normal (VFunction [] inner_body [(''name'', VString name)])) \<and>
     call_function (VFunction [] inner_body [(''name'', VString name)]) [] =
       Some (Thrown (VError (''Component `'' @ name @ ''` was not imported, exported, or given'')))"
  by (simp add: call_missing_component_def declared_function_def createMissingComponentHelper_def
      call_function_def)

theorem missing_component_helper_defers_the_error_witness:
  "\<exists>body inner_body.
     createMissingComponentHelper =
       FunctionNode FunctionDeclaration (Some ''_missingComponent'') [Identifier ''name''] body \<and>
     call_missing_component ''Foo'' =
       Some (Normal (VFunction [] inner_body [(''name'', VString ''Foo'')])) \<and>
     call_function (VFunction [] inner_body [(''name'', VString ''Foo'')]) [] =
       Some (Thrown (VError ''Component `Foo` was not imported, exported, or given''))"
  using missing_component_helper_defers_the_error [of "''Foo''"] by simp

text \<open>
  C5, as stated, fails for \<^verbatim>\<open>function MDXContent(props) { return <h1/> }\<close>: the last
  part of the initializer is \<^verbatim>\<open>_props.components\<close>, which is not an access on the
  function's first parameter \<^verbatim>\<open>props\<close>.
\<close>

theorem props_access_not_from_parameter_counterexample:
  "transform (example_config None {}) [mdx_props_function] = Some [mdx_props_output] \<and>
   last_part mdx_props_output =
     Some (MemberExpression (Identifier ''_props'') (Identifier ''components'') False) \<and>
   components_of_first_parameter mdx_props_output =
     Some (MemberExpression (Identifier ''props'') (Identifier ''components'') False) \<and>
   last_part mdx_props_output \<noteq> components_of_first_parameter mdx_props_output"
  by code_simp

text \<open>
  C5, amended. Leaving the function declaration named \<^verbatim>\<open>MDXContent\<close> with a frame that
  is not empty succeeds, and the last part of the initializer of \<^verbatim>\<open>_components\<close> is the
  member expression \<^verbatim>\<open>_props.components\<close>, on the identifier \<^verbatim>\<open>_props\<close>, whatever the
  parameters of the function are.
\<close>

theorem entry_point_last_part_is_props_components:
  assumes "stack st \<noteq> []"
    and "tags (last (stack st)) \<noteq> [] \<or> components (last (stack st)) \<noteq> [] \<or>
         objects (last (stack st)) \<noteq> []"
  shows "\<exists>f st'.
     onleave cfg (FunctionNode FunctionDeclaration (Some ''MDXContent'') params body) st =
       Some (f, st') \<and>
     last_part f =
       Some (MemberExpression (Identifier ''_props'') (Identifier ''components'') False)"
  using assms
  by (simp add: onleave_function components_initializer_def declarations_of_def last_part_def
      parameters_of_def object_assign_def initializer_parts_def props_components_def)

theorem entry_point_last_part_is_props_components_witness:
  "\<exists>f st'.
     onleave (example_config None {})
       (FunctionNode FunctionDeclaration (Some ''MDXContent'') [Identifier ''props'']
          (BlockStatement []))
       (one_frame \<lparr>objects = [], components = [], tags = [''h1'']\<rparr>) = Some (f, st') \<and>
     last_part f =
       Some (MemberExpression (Identifier ''_props'') (Identifier ''components'') False)"
  using entry_point_last_part_is_props_components [of
      "one_frame \<lparr>objects = [], components = [], tags = [''h1'']\<rparr>"
      "example_config None {}" "[Identifier ''props'']" "BlockStatement []"]
  by (simp add: one_frame_def)

text \<open>
  C6. When \<^verbatim>\<open>transform\<close> returns, the statements of the program are, in this order:
  the provider import if the walk ended with the provider flag set, the helper
  declaration if it ended with the helper flag set, and then the statements the walk
  left, as many as the program had. Each of the two is there at most once, and the
  provider flag is set only when a provider source is configured.
\<close>

theorem root_statements_order:
  assumes "transform cfg body = Some out"
  shows "\<exists>body1 st.
     walk cfg (analyze cfg (Program body)) (Program body) initial_state = Some (Program body1, st) \<and>
     length body1 = length body \<and>
     out = (if importProvider st then [createImportProvider cfg] else []) @
           (if useMissingComponentHelper st then [createMissingComponentHelper] else []) @
           body1 \<and>
     (importProvider st \<longrightarrow> truthy (providerImportSource cfg))"
proof -
  let ?ts = "analyze cfg (Program body)"
  from assms obtain node' st where
    w: "walk cfg ?ts (Program body) initial_state = Some (node', st)"
    by (auto simp: transform_def Let_def split: option.splits)
  then obtain body1 where p: "node' = Program body1" and len: "length body1 = length body"
    using walk_program by blast
  have out: "out = (if importProvider st then [createImportProvider cfg] else []) @
           (if useMissingComponentHelper st then [createMissingComponentHelper] else []) @
           body1"
    using assms w p by (auto simp: transform_def Let_def unshift_def)
  have "importProvider st \<longrightarrow> truthy (providerImportSource cfg)"
  proof (rule walk_invariant[where P = "\<lambda>s. importProvider s \<longrightarrow> truthy (providerImportSource cfg)",
        OF _ _ _ w])
    show "\<And>n s. importProvider s \<longrightarrow> truthy (providerImportSource cfg) \<Longrightarrow>
        importProvider (snd (onenter cfg ?ts n s)) \<longrightarrow> truthy (providerImportSource cfg)"
      by (simp add: onenter_importProvider)
    show "\<And>n s n' s'. importProvider s \<longrightarrow> truthy (providerImportSource cfg) \<Longrightarrow>
        onleave cfg n s = Some (n', s') \<Longrightarrow>
        importProvider s' \<longrightarrow> truthy (providerImportSource cfg)"
      using onleave_importProvider by blast
    show "importProvider initial_state \<longrightarrow> truthy (providerImportSource cfg)"
      by (simp add: initial_state_def)
  qed
  then show ?thesis using w p len out by blast
qed

theorem root_statements_order_witness:
  "transform (example_config (Some ''x'') {}) [component_function] =
     Some [createImportProvider (example_config (Some ''x'') {}), createMissingComponentHelper,
           component_output] \<and>
   (\<exists>body1 st.
      walk (example_config (Some ''x'') {}) {} (Program [component_function]) initial_state =
        Some (Program body1, st) \<and>
      [createImportProvider (example_config (Some ''x'') {}), createMissingComponentHelper,
       component_output] =
        (if importProvider st then [createImportProvider (example_config (Some ''x'') {})] else []) @
        (if useMissingComponentHelper st then [createMissingComponentHelper] else []) @ body1)"
proof -
  have t: "transform (example_config (Some ''x'') {}) [component_function] =
     Some [createImportProvider (example_config (Some ''x'') {}), createMissingComponentHelper,
           component_output]"
    by code_simp
  have a: "analyze (example_config (Some ''x'') {}) (Program [component_function]) = {}"
    by (simp add: example_config_def)
  from root_statements_order[OF t] t show ?thesis unfolding a by blast
qed

text \<open>
  C7. When the frame popped on leaving a function has no tags, no components and no
  objects, \<^verbatim>\<open>onleave\<close> returns the function node as it was: nothing is put in front of
  its body, and the expression body of an arrow function stays an expression. Only the
  frame is gone from the stack.
\<close>

theorem leave_without_discoveries:
  assumes "stack st \<noteq> []" and "tags (last (stack st)) = []"
    and "components (last (stack st)) = []" and "objects (last (stack st)) = []"
  shows "onleave cfg (FunctionNode ftype ident params body) st =
           Some (FunctionNode ftype ident params body, st\<lparr>stack := butlast (stack st)\<rparr>)"
  using assms by (simp add: onleave_function)

theorem leave_without_discoveries_witness:
  "onleave (example_config None {})
     (FunctionNode ArrowFunctionExpression None [] (Identifier ''x'')) (one_frame empty_scope) =
   Some (FunctionNode ArrowFunctionExpression None [] (Identifier ''x''), initial_state)"
  using leave_without_discoveries [of "one_frame empty_scope" "example_config None {}"
      ArrowFunctionExpression None "[]" "Identifier ''x''"]
  by (simp add: one_frame_def empty_scope_def initial_state_def)

text \<open>
  C8, as stated, fails when the leftmost identifier is declared at the top level: with
  \<^verbatim>\<open>Foo\<close> in the top-level scope, entering \<^verbatim>\<open><Foo.Bar/>\<close> in a function adds nothing
  to the objects of the frame, and the function gets no declaration.
\<close>

theorem top_scope_object_not_recorded_counterexample:
  "leftmost (JSXObjectIdentifier ''Foo'') = ''Foo'' \<and>
   ''Foo'' \<notin> set (objects (hd (stack (snd
      (onenter (example_config None {''Foo''}) {''Foo''}
         (JSXElement (JSXMemberExpression (JSXObjectIdentifier ''Foo'') ''Bar'') [] None True [])
         (one_frame empty_scope)))))) \<and>
   transform (example_config None {''Foo''}) [member_function] = Some [member_function]"
  by code_simp

text \<open>
  C8, amended. Entering an element with a namespaced name, with a frame open, changes
  neither the element nor the state. Entering an element whose name is a member chain
  leaves the element as it is; the leftmost identifier of the chain is appended to the
  objects of the first frame unless it is there already or is declared at the top level,
  and nothing else changes, so objects without duplicates stay without duplicates.
\<close>

theorem member_and_namespaced_names_kept:
  assumes "stack st \<noteq> []"
  shows "onenter cfg topScope (JSXElement (JSXNamespacedName ns n) attributes closing explicit cs) st =
           (JSXElement (JSXNamespacedName ns n) attributes closing explicit cs, st) \<and>
    (\<exists>st'. onenter cfg topScope
                 (JSXElement (JSXMemberExpression obj prop) attributes closing explicit cs) st =
               (JSXElement (JSXMemberExpression obj prop) attributes closing explicit cs, st') \<and>
             objects (hd (stack st')) =
               (if leftmost obj \<in> set (objects (hd (stack st))) \<or> leftmost obj \<in> topScope
                then objects (hd (stack st))
                else objects (hd (stack st)) @ [leftmost obj]) \<and>
             components (hd (stack st')) = components (hd (stack st)) \<and>
             tags (hd (stack st')) = tags (hd (stack st)) \<and>
             tl (stack st') = tl (stack st) \<and>
             useMissingComponentHelper st' = useMissingComponentHelper st \<and>
             importProvider st' = importProvider st \<and>
             (distinct (objects (hd (stack st))) \<longrightarrow> distinct (objects (hd (stack st')))))"
  using assms by (auto simp: onenter_def is_function_def update_scope0_def Let_def)

theorem member_and_namespaced_names_kept_witness:
  "onenter (example_config None {}) {}
     (JSXElement (JSXNamespacedName ''xml'' ''thing'') [] None False [])
     (one_frame \<lparr>objects = [''a''], components = [], tags = []\<rparr>) =
   (JSXElement (JSXNamespacedName ''xml'' ''thing'') [] None False [],
    one_frame \<lparr>objects = [''a''], components = [], tags = []\<rparr>) \<and>
   onenter (example_config None {}) {}
     (JSXElement (JSXMemberExpression (JSXObjectMember (JSXObjectIdentifier ''x'') ''y'') ''z'')
        [] None False [])
     (one_frame \<lparr>objects = [''a''], components = [], tags = []\<rparr>) =
   (JSXElement (JSXMemberExpression (JSXObjectMember (JSXObjectIdentifier ''x'') ''y'') ''z'')
      [] None False [],
    one_frame \<lparr>objects = [''a'', ''x''], components = [], tags = []\<rparr>) \<and>
   onenter (example_config None {}) {}
     (JSXElement (JSXMemberExpression (JSXObjectIdentifier ''a'') ''b'') [] None False [])
     (one_frame \<lparr>objects = [''a''], components = [], tags = []\<rparr>) =
   (JSXElement (JSXMemberExpression (JSXObjectIdentifier ''a'') ''b'') [] None False [],
    one_frame \<lparr>objects = [''a''], components = [], tags = []\<rparr>)"
proof -
  have ne: "stack (one_frame \<lparr>objects = [''a''], components = [], tags = []\<rparr>) \<noteq> []"
    by (simp add: one_frame_def)
  have ns: "onenter (example_config None {}) {}
     (JSXElement (JSXNamespacedName ''xml'' ''thing'') [] None False [])
     (one_frame \<lparr>objects = [''a''], components = [], tags = []\<rparr>) =
   (JSXElement (JSXNamespacedName ''xml'' ''thing'') [] None False [],
    one_frame \<lparr>objects = [''a''], components = [], tags = []\<rparr>)"
    using member_and_namespaced_names_kept[OF ne] by blast
  have rest: "onenter (example_config None {}) {}
     (JSXElement (JSXMemberExpression (JSXObjectMember (JSXObjectIdentifier ''x'') ''y'') ''z'')
        [] None False [])
     (one_frame \<lparr>objects = [''a''], components = [], tags = []\<rparr>) =
   (JSXElement (JSXMemberExpression (JSXObjectMember (JSXObjectIdentifier ''x'') ''y'') ''z'')
      [] None False [],
    one_frame \<lparr>objects = [''a'', ''x''], components = [], tags = []\<rparr>) \<and>
   onenter (example_config None {}) {}
     (JSXElement (JSXMemberExpression (JSXObjectIdentifier ''a'') ''b'') [] None False [])
     (one_frame \<lparr>objects = [''a''], components = [], tags = []\<rparr>) =
   (JSXElement (JSXMemberExpression (JSXObjectIdentifier ''a'') ''b'') [] None False [],
    one_frame \<lparr>objects = [''a''], components = [], tags = []\<rparr>)"
    by code_simp
  from ns rest show ?thesis by simp
qed

text \<open>
  C9. A function that gets the \<^verbatim>\<open>_components\<close> declaration (its frame is not empty, and
  \<^verbatim>\<open>onleave\<close> does not throw): the parts are the defaults object, then the provider call
  when a provider source is configured, then the props access when the function is the
  declaration \<^verbatim>\<open>MDXContent\<close>. With one part the initializer is that part; with more the
  initializer is the call of \<^verbatim>\<open>Object.assign\<close> on the parts in that order.
\<close>

theorem initializer_merges_only_several_parts:
  assumes "stack st \<noteq> []"
    and "tags (last (stack st)) \<noteq> [] \<or> components (last (stack st)) \<noteq> [] \<or>
         objects (last (stack st)) \<noteq> []"
    and "ftype = FunctionDeclaration \<longrightarrow> ident \<noteq> None"
  shows "\<exists>f st'.
     onleave cfg (FunctionNode ftype ident params body) st = Some (f, st') \<and>
     components_initializer f =
       Some (let parts =
                   [ObjectExpression (defaults_of (last (stack st)))] @
                   (if truthy (providerImportSource cfg) then [provider_call] else []) @
                   (if ftype = FunctionDeclaration \<and> ident = Some ''MDXContent''
                    then [props_components] else [])
             in case parts of
                  [part] \<Rightarrow> part
                | _ \<Rightarrow> CallExpression
                         (MemberExpression (Identifier ''Object'') (Identifier ''assign'') False)
                         parts)"
  using assms
  by (simp add: onleave_function components_initializer_def declarations_of_def
      parameters_of_def object_assign_def)

theorem initializer_merges_only_several_parts_witness:
  "\<exists>f st'.
     onleave (example_config (Some ''x'') {})
       (FunctionNode FunctionDeclaration (Some ''MDXContent'') [Identifier ''_props'']
          (BlockStatement []))
       (one_frame \<lparr>objects = [], components = [], tags = [''h1'']\<rparr>) = Some (f, st') \<and>
     components_initializer f =
       Some (CallExpression
               (MemberExpression (Identifier ''Object'') (Identifier ''assign'') False)
               [ObjectExpression [Property False (Identifier ''h1'') (Literal (Str ''h1''))],
                CallExpression (Identifier ''_provideComponents'') [],
                MemberExpression (Identifier ''_props'') (Identifier ''components'') False])"
  using initializer_merges_only_several_parts [of
      "one_frame \<lparr>objects = [], components = [], tags = [''h1'']\<rparr>" FunctionDeclaration
      "Some ''MDXContent''" "example_config (Some ''x'') {}" "[Identifier ''_props'']"
      "BlockStatement []"]
  by (simp add: one_frame_def example_config_def truthy_def defaults_of_def tag_default_def
      provider_call_def props_components_def)

text \<open>
  C10. A JSX element entered while the stack is empty (outside every function) is neither
  classified nor changed: \<^verbatim>\<open>onenter\<close> returns the element as it was, with its opening
  and closing names, and the state as it was, so no set and no flag changes.
\<close>

theorem element_outside_functions_untouched:
  assumes "stack st = []"
  shows "onenter cfg topScope (JSXElement name attributes closing explicit cs) st =
           (JSXElement name attributes closing explicit cs, st)"
  using assms by (simp add: onenter_def is_function_def)

theorem element_outside_functions_untouched_witness:
  "onenter (example_config None {}) {}
     (JSXElement (JSXIdentifier ''h1'') [] (Some (JSXIdentifier ''h1'')) False []) initial_state =
   (JSXElement (JSXIdentifier ''h1'') [] (Some (JSXIdentifier ''h1'')) False [], initial_state)"
  using element_outside_functions_untouched [of initial_state "example_config None {}" "{}"
      "JSXIdentifier ''h1''" "[]" "Some (JSXIdentifier ''h1'')" False "[]"]
  by (simp add: initial_state_def)

end
